theory Spec2Isabelle
  imports Main
begin

section \<open>Domain types (types/appointment.types)\<close>

text \<open>
  The two enums of the domain. \<open>CountryISO_str\<close> and \<open>AppointmentStatus_str\<close> give the
  string value each member has at run time (\<^verbatim>\<open>PENDING = 'pending'\<close>, ...), which is what
  is interpolated into messages and written to JSON.
\<close>

datatype CountryISO = PE | CL

datatype AppointmentStatus = PENDING | PROCESSING | COMPLETED | FAILED

fun CountryISO_str :: "CountryISO \<Rightarrow> string" where
  "CountryISO_str PE = ''PE''"
| "CountryISO_str CL = ''CL''"

fun AppointmentStatus_str :: "AppointmentStatus \<Rightarrow> string" where
  "AppointmentStatus_str PENDING = ''pending''"
| "AppointmentStatus_str PROCESSING = ''processing''"
| "AppointmentStatus_str COMPLETED = ''completed''"
| "AppointmentStatus_str FAILED = ''failed''"

text \<open>
  The error classes. \<open>Error name message\<close> is a plain JavaScript error (the SDK's
  exceptions are of this kind, told apart by their \<open>name\<close>); \<open>AppointmentError message
  code statusCode\<close> is the base class of the repository, and the three subclasses fix
  code and status code in their constructors.
  Strings are lists of code units below 256, so an accented letter is one character,
  written by its code.
\<close>

datatype js_error =
    Error string string
  | AppointmentError string string int
  | ValidationError string
  | NotFoundError string
  | ConflictError string

fun error_message :: "js_error \<Rightarrow> string" where
  "error_message (Error _ m) = m"
| "error_message (AppointmentError m _ _) = m"
| "error_message (ValidationError m) = m"
| "error_message (NotFoundError m) = m"
| "error_message (ConflictError m) = m"

text \<open>The two fields an AppointmentError has and a plain error has not.\<close>

fun error_statusCode :: "js_error \<Rightarrow> int option" where
  "error_statusCode (Error _ _) = None"
| "error_statusCode (AppointmentError _ _ s) = Some s"
| "error_statusCode (ValidationError _) = Some 400"
| "error_statusCode (NotFoundError _) = Some 404"
| "error_statusCode (ConflictError _) = Some 409"

fun error_code :: "js_error \<Rightarrow> string option" where
  "error_code (Error _ _) = None"
| "error_code (AppointmentError _ c _) = Some c"
| "error_code (ValidationError _) = Some ''VALIDATION_ERROR''"
| "error_code (NotFoundError _) = Some ''NOT_FOUND''"
| "error_code (ConflictError _) = Some ''CONFLICT''"

section \<open>JavaScript values and JSON\<close>

text \<open>
  The values that \<^verbatim>\<open>JSON.parse\<close> returns. Numbers are restricted to integers (the only
  numbers of the domain are schedule ids). Every integer below \<open>2\<^sup>5\<^sup>3\<close> is a value of the
  number type; the codec below keeps an integer literal as it is written, so it agrees
  with JavaScript on these and does not round a longer literal as \<^verbatim>\<open>JSON.parse\<close> does.
  An object is the list of its members in the order of the text.
\<close>

datatype json =
    JNull
  | JBool bool
  | JNum int
  | JStr string
  | JArr "json list"
  | JObj "(string \<times> json) list"

text \<open>
  \<^verbatim>\<open>JSON.stringify\<close>: no white space, decimal integers, and in a string the escapes
  for the quote, the backslash and the control characters.
\<close>

definition digit_char :: "nat \<Rightarrow> char" where
  "digit_char d = char_of (48 + d)"

function show_nat :: "nat \<Rightarrow> string" where
  "show_nat n = (if n < 10 then [digit_char n] else show_nat (n div 10) @ [digit_char (n mod 10)])"
  by pat_completeness auto
termination
  by (relation "measure id") auto

declare show_nat.simps [simp del]

definition show_int :: "int \<Rightarrow> string" where
  "show_int i = (if i < 0 then CHR ''-'' # show_nat (nat (- i)) else show_nat (nat i))"

definition hex_char :: "nat \<Rightarrow> char" where
  "hex_char d = (if d < 10 then char_of (48 + d) else char_of (87 + d))"

definition escape_char :: "char \<Rightarrow> string" where
  "escape_char c =
     (if c = CHR 0x22 then [CHR 0x5C, CHR 0x22]
      else if c = CHR 0x5C then [CHR 0x5C, CHR 0x5C]
      else if c = CHR 0x08 then [CHR 0x5C, CHR ''b'']
      else if c = CHR 0x0C then [CHR 0x5C, CHR ''f'']
      else if c = CHR 0x0A then [CHR 0x5C, CHR ''n'']
      else if c = CHR 0x0D then [CHR 0x5C, CHR ''r'']
      else if c = CHR 0x09 then [CHR 0x5C, CHR ''t'']
      else if (of_char c :: nat) < 32
        then [CHR 0x5C, CHR ''u'', CHR ''0'', CHR ''0'',
              hex_char (of_char c div 16), hex_char (of_char c mod 16)]
      else [c])"

definition quote :: "string \<Rightarrow> string" where
  "quote s = CHR 0x22 # concat (map escape_char s) @ [CHR 0x22]"

fun join :: "string \<Rightarrow> string list \<Rightarrow> string" where
  "join sep [] = []"
| "join sep [x] = x"
| "join sep (x # y # ys) = x @ sep @ join sep (y # ys)"

primrec JSON_stringify :: "json \<Rightarrow> string" where
  "JSON_stringify JNull = ''null''"
| "JSON_stringify (JBool b) = (if b then ''true'' else ''false'')"
| "JSON_stringify (JNum i) = show_int i"
| "JSON_stringify (JStr s) = quote s"
| "JSON_stringify (JArr xs) = ''['' @ join '','' (map JSON_stringify xs) @ '']''"
| "JSON_stringify (JObj kvs) =
     ''{'' @ join '','' (map (\<lambda>(k, t). quote k @ '':'' @ t) (map (map_prod id JSON_stringify) kvs)) @ ''}''"

text \<open>
  \<^verbatim>\<open>JSON.parse\<close>: a recursive-descent parser of the JSON grammar, with white space
  between tokens, no leading zeros, and the string escapes. A number with a fraction or
  an exponent and an escape above \<open>0x00FF\<close> have no value in this model and are
  refused. The parser takes fuel, one unit per value; \<open>parse_json\<close> gives it more than
  the length of the text, which is more than any text needs.
\<close>

definition is_ws :: "char \<Rightarrow> bool" where
  "is_ws c = (c = CHR 0x20 \<or> c = CHR 0x09 \<or> c = CHR 0x0A \<or> c = CHR 0x0D)"

definition skip_ws :: "string \<Rightarrow> string" where
  "skip_ws s = dropWhile is_ws s"

definition is_digit :: "char \<Rightarrow> bool" where
  "is_digit c = (48 \<le> (of_char c :: nat) \<and> (of_char c :: nat) \<le> 57)"

definition digit_val :: "char \<Rightarrow> nat" where
  "digit_val c = of_char c - 48"

definition hex_val :: "char \<Rightarrow> nat option" where
  "hex_val c =
     (let n = (of_char c :: nat)
      in if 48 \<le> n \<and> n \<le> 57 then Some (n - 48)
         else if 97 \<le> n \<and> n \<le> 102 then Some (n - 87)
         else if 65 \<le> n \<and> n \<le> 70 then Some (n - 55)
         else None)"

definition hex4 :: "char \<Rightarrow> char \<Rightarrow> char \<Rightarrow> char \<Rightarrow> nat option" where
  "hex4 a b c d =
     (case (hex_val a, hex_val b, hex_val c, hex_val d) of
        (Some x, Some y, Some z, Some w) \<Rightarrow> Some (((x * 16 + y) * 16 + z) * 16 + w)
      | _ \<Rightarrow> None)"

definition simple_escape :: "char \<Rightarrow> char option" where
  "simple_escape e =
     (if e = CHR 0x22 then Some (CHR 0x22)
      else if e = CHR 0x5C then Some (CHR 0x5C)
      else if e = CHR ''/'' then Some (CHR ''/'')
      else if e = CHR ''b'' then Some (CHR 0x08)
      else if e = CHR ''f'' then Some (CHR 0x0C)
      else if e = CHR ''n'' then Some (CHR 0x0A)
      else if e = CHR ''r'' then Some (CHR 0x0D)
      else if e = CHR ''t'' then Some (CHR 0x09)
      else None)"

definition cons_result :: "'a \<Rightarrow> ('a list \<times> 'b) option \<Rightarrow> ('a list \<times> 'b) option" where
  "cons_result x r = (case r of None \<Rightarrow> None | Some (xs, rest) \<Rightarrow> Some (x # xs, rest))"

fun parse_chars :: "string \<Rightarrow> (string \<times> string) option" where
  "parse_chars [] = None"
| "parse_chars (c # cs) =
     (if c = CHR 0x22 then Some ([], cs)
      else if c = CHR 0x5C then
        (case cs of
           [] \<Rightarrow> None
         | e # r \<Rightarrow>
             if e = CHR ''u'' then
               (case r of
                  h1 # h2 # h3 # h4 # r' \<Rightarrow>
                    (case hex4 h1 h2 h3 h4 of
                       None \<Rightarrow> None
                     | Some v \<Rightarrow> if v < 256 then cons_result (char_of v) (parse_chars r') else None)
                | _ \<Rightarrow> None)
             else (case simple_escape e of
                     None \<Rightarrow> None
                   | Some x \<Rightarrow> cons_result x (parse_chars r)))
      else if (of_char c :: nat) < 32 then None
      else cons_result c (parse_chars cs))"

definition parse_nat_lit :: "string \<Rightarrow> (nat \<times> string) option" where
  "parse_nat_lit s =
     (let ds = takeWhile is_digit s; r = dropWhile is_digit s
      in if ds = [] then None
         else if 1 < length ds \<and> hd ds = CHR ''0'' then None
         else if r \<noteq> [] \<and> (hd r = CHR ''.'' \<or> hd r = CHR ''e'' \<or> hd r = CHR ''E'') then None
         else Some (foldl (\<lambda>a c. 10 * a + digit_val c) 0 ds, r))"

definition parse_number :: "string \<Rightarrow> (json \<times> string) option" where
  "parse_number s =
     (case s of
        [] \<Rightarrow> None
      | c # cs \<Rightarrow>
          if c = CHR ''-''
          then (case parse_nat_lit cs of None \<Rightarrow> None | Some (n, r) \<Rightarrow> Some (JNum (- int n), r))
          else (case parse_nat_lit s of None \<Rightarrow> None | Some (n, r) \<Rightarrow> Some (JNum (int n), r)))"

definition parse_literal :: "string \<Rightarrow> json \<Rightarrow> string \<Rightarrow> (json \<times> string) option" where
  "parse_literal lit v s =
     (if take (length lit) s = lit then Some (v, drop (length lit) s) else None)"

fun parse_value :: "nat \<Rightarrow> string \<Rightarrow> (json \<times> string) option"
and parse_elements :: "nat \<Rightarrow> string \<Rightarrow> (json list \<times> string) option"
and parse_members :: "nat \<Rightarrow> string \<Rightarrow> ((string \<times> json) list \<times> string) option" where
  "parse_value 0 s = None"
| "parse_value (Suc n) s =
     (case skip_ws s of
        [] \<Rightarrow> None
      | c # cs \<Rightarrow>
          if c = CHR 0x22 then
            (case parse_chars cs of None \<Rightarrow> None | Some (str, r) \<Rightarrow> Some (JStr str, r))
          else if c = CHR ''['' then
            (case skip_ws cs of
               [] \<Rightarrow> None
             | d # r \<Rightarrow>
                 if d = CHR '']'' then Some (JArr [], r)
                 else (case parse_elements n cs of
                         None \<Rightarrow> None
                       | Some (vs, r') \<Rightarrow> Some (JArr vs, r')))
          else if c = CHR ''{'' then
            (case skip_ws cs of
               [] \<Rightarrow> None
             | d # r \<Rightarrow>
                 if d = CHR ''}'' then Some (JObj [], r)
                 else (case parse_members n cs of
                         None \<Rightarrow> None
                       | Some (kvs, r') \<Rightarrow> Some (JObj kvs, r')))
          else if c = CHR ''t'' then parse_literal ''true'' (JBool True) (c # cs)
          else if c = CHR ''f'' then parse_literal ''false'' (JBool False) (c # cs)
          else if c = CHR ''n'' then parse_literal ''null'' JNull (c # cs)
          else parse_number (c # cs))"
| "parse_elements 0 s = None"
| "parse_elements (Suc n) s =
     (case parse_value n s of
        None \<Rightarrow> None
      | Some (v, r) \<Rightarrow>
          (case skip_ws r of
             [] \<Rightarrow> None
           | d # r' \<Rightarrow>
               if d = CHR '','' then cons_result v (parse_elements n r')
               else if d = CHR '']'' then Some ([v], r')
               else None))"
| "parse_members 0 s = None"
| "parse_members (Suc n) s =
     (case skip_ws s of
        [] \<Rightarrow> None
      | q # cs \<Rightarrow>
          if q \<noteq> CHR 0x22 then None
          else (case parse_chars cs of
                  None \<Rightarrow> None
                | Some (k, r) \<Rightarrow>
                    (case skip_ws r of
                       [] \<Rightarrow> None
                     | col # r1 \<Rightarrow>
                         if col \<noteq> CHR '':'' then None
                         else (case parse_value n r1 of
                                 None \<Rightarrow> None
                               | Some (v, r2) \<Rightarrow>
                                   (case skip_ws r2 of
                                      [] \<Rightarrow> None
                                    | d # r3 \<Rightarrow>
                                        if d = CHR '','' then cons_result (k, v) (parse_members n r3)
                                        else if d = CHR ''}'' then Some ([(k, v)], r3)
                                        else None)))))"

definition parse_json :: "string \<Rightarrow> json option" where
  "parse_json s =
     (case parse_value (Suc (length s)) s of
        None \<Rightarrow> None
      | Some (v, r) \<Rightarrow> if skip_ws r = [] then Some v else None)"

text \<open>
  \<^verbatim>\<open>JSON.parse\<close> throws a SyntaxError where the text is not JSON. The engine's message
  names the offending token; the model uses one fixed message.
\<close>

definition JSON_parse :: "string \<Rightarrow> js_error + json" where
  "JSON_parse s =
     (case parse_json s of
        None \<Rightarrow> Inl (Error ''SyntaxError'' ''Unexpected token in JSON'')
      | Some v \<Rightarrow> Inr v)"

text \<open>
  The coercions the handlers rely on: truthiness of a value that may be
  \<^verbatim>\<open>undefined\<close> (\<open>None\<close>), \<^verbatim>\<open>String (v)\<close> as used by template literals and
  \<^verbatim>\<open>RegExp.test\<close>, and reading a property, which throws a TypeError on \<^verbatim>\<open>null\<close>,
  finds the last member of that name in an object, and is \<^verbatim>\<open>undefined\<close> on the other
  values for the property names used here.
\<close>

fun js_truthy :: "json option \<Rightarrow> bool" where
  "js_truthy None = False"
| "js_truthy (Some JNull) = False"
| "js_truthy (Some (JBool b)) = b"
| "js_truthy (Some (JNum n)) = (n \<noteq> 0)"
| "js_truthy (Some (JStr s)) = (s \<noteq> [])"
| "js_truthy (Some (JArr xs)) = True"
| "js_truthy (Some (JObj kvs)) = True"

primrec js_String :: "json \<Rightarrow> string" where
  "js_String JNull = ''null''"
| "js_String (JBool b) = (if b then ''true'' else ''false'')"
| "js_String (JNum i) = show_int i"
| "js_String (JStr s) = s"
| "js_String (JArr xs) =
     join '','' (map2 (\<lambda>x s. if x = JNull then [] else s) xs (map js_String xs))"
| "js_String (JObj kvs) = ''[object Object]''"

definition js_String_opt :: "json option \<Rightarrow> string" where
  "js_String_opt v = (case v of None \<Rightarrow> ''undefined'' | Some x \<Rightarrow> js_String x)"

definition get_prop :: "json \<Rightarrow> string \<Rightarrow> js_error + json option" where
  "get_prop v key =
     (case v of
        JNull \<Rightarrow> Inl (Error ''TypeError''
                  (''Cannot read properties of null (reading '' @ [CHR 0x27] @ key @ [CHR 0x27] @ '')''))
      | JObj kvs \<Rightarrow> Inr (map_of (rev kvs) key)
      | _ \<Rightarrow> Inr None)"

section \<open>The status state machine (AppointmentService.validateStatusTransition)\<close>

fun validTransitions :: "AppointmentStatus \<Rightarrow> AppointmentStatus list" where
  "validTransitions PENDING = [PROCESSING, FAILED]"
| "validTransitions PROCESSING = [COMPLETED, FAILED]"
| "validTransitions COMPLETED = []"
| "validTransitions FAILED = []"

definition validateStatusTransition ::
  "AppointmentStatus \<Rightarrow> AppointmentStatus \<Rightarrow> js_error + unit" where
  "validateStatusTransition currentStatus newStatus =
     (let allowedTransitions = validTransitions currentStatus
      in if newStatus \<notin> set allowedTransitions
         then Inl (ValidationError
                (''Transici'' @ [CHR 0xF3] @ ''n de estado inv'' @ [CHR 0xE1] @ ''lida: ''
                 @ AppointmentStatus_str currentStatus @ '' -> ''
                 @ AppointmentStatus_str newStatus))
         else Inr ())"

section \<open>Schedule metadata (BaseAppointmentProcessor.getScheduleInformation)\<close>

text \<open>
  A JavaScript number is an IEEE 754 double. The integers among the doubles are
  modelled as \<open>int\<close>: \<open>is_double n\<close> says that the integer \<open>n\<close> is one of them, that is, it
  has at most 53 significant bits and is below \<open>2\<^sup>1\<^sup>0\<^sup>2\<^sup>4\<close>. \<open>ilog2 n\<close> is the position of
  the leading bit of \<open>n\<close>.
\<close>

function ilog2 :: "int \<Rightarrow> nat" where
  "ilog2 n = (if n < 2 then 0 else Suc (ilog2 (n div 2)))"
  by pat_completeness auto

termination
  by (relation "measure nat") auto

declare ilog2.simps [simp del]

definition is_double :: "int \<Rightarrow> bool" where
  "is_double n =
     (let k = ilog2 \<bar>n\<bar>
      in k < 1024 \<and> (k \<le> 52 \<or> \<bar>n\<bar> mod 2 ^ (k - 52) = 0))"

text \<open>
  The remainder operator \<^verbatim>\<open>%\<close> is exact on doubles and takes the sign of the dividend,
  unlike \<open>mod\<close>.
\<close>

definition js_rem :: "int \<Rightarrow> int \<Rightarrow> int" where
  "js_rem a b = sgn a * (\<bar>a\<bar> mod \<bar>b\<bar>)"

text \<open>
  \<^verbatim>\<open>Math.floor (a / b)\<close> for an integer \<open>a\<close> and a positive integer \<open>b\<close>. The division
  \<^verbatim>\<open>a / b\<close> gives the double nearest to the quotient, ties to the even significand:
  with \<open>e = quotient_exponent \<bar>a\<bar> b\<close> the exponent of the quotient
  (\<open>2 ^ e \<le> \<bar>a\<bar> / b < 2 ^ (e + 1)\<close>), the last of the 53 bits of the result has weight \<open>2\<^sup>s\<close>
  for \<open>s = e - 52\<close>, and the result is \<open>round_even\<close> of the quotient counted in units of
  \<open>2\<^sup>s\<close>, times \<open>2\<^sup>s\<close>. \<^verbatim>\<open>Math.floor\<close> of that is exact. The exponent range is not
  modelled: the divisors of the code are 10, 100 and 1000, and the quotient of a nonzero
  integer double by one of them is neither subnormal nor infinite.
\<close>

definition round_even :: "int \<Rightarrow> int \<Rightarrow> int" where
  "round_even n d =
     (let q = n div d; r = n mod d
      in if 2 * r < d then q
         else if d < 2 * r then q + 1
         else if even q then q else q + 1)"

definition quotient_exponent :: "int \<Rightarrow> int \<Rightarrow> int" where
  "quotient_exponent a b =
     (let k = int (ilog2 a) - int (ilog2 b)
      in if (if 0 \<le> k then b * 2 ^ nat k \<le> a else b \<le> a * 2 ^ nat (- k))
         then k else k - 1)"

definition floor_div :: "int \<Rightarrow> int \<Rightarrow> int" where
  "floor_div a b =
     (if a = 0 then 0
      else let s = quotient_exponent \<bar>a\<bar> b - 52
           in if s < 0
              then (sgn a * round_even (\<bar>a\<bar> * 2 ^ nat (- s)) b) div 2 ^ nat (- s)
              else (sgn a * round_even \<bar>a\<bar> (b * 2 ^ nat s)) * 2 ^ nat s)"

text \<open>\<^verbatim>\<open>x || 1\<close> on a number replaces \<open>0\<close> by \<open>1\<close>.\<close>

definition or_num :: "int \<Rightarrow> int \<Rightarrow> int" where
  "or_num x d = (if x = 0 then d else x)"

record ScheduleInfo =
  centerId :: int
  specialtyId :: int
  medicId :: int
  appointmentDate :: string

definition getScheduleInformation :: "string \<Rightarrow> int \<Rightarrow> ScheduleInfo" where
  "getScheduleInformation ts scheduleId =
     \<lparr> centerId = or_num (floor_div scheduleId 1000) 1,
       specialtyId = or_num (floor_div (js_rem scheduleId 1000) 100) 1,
       medicId = or_num (floor_div (js_rem scheduleId 100) 10) 1,
       appointmentDate = ts \<rparr>"

section \<open>Records of the domain\<close>

text \<open>
  The interfaces of types/appointment.types. Field names carry a prefix where two
  interfaces share a name: \<open>rq_\<close> for AppointmentRequest, \<open>a_\<close> for Appointment, \<open>ce_\<close>
  for AppointmentCreatedEvent, \<open>cf_\<close> for AppointmentConfirmedEvent, \<open>r_\<close> for the two
  fields of AppointmentRDSEntity that clash.
\<close>

record AppointmentRequest =
  rq_insuredId :: string
  rq_scheduleId :: int
  rq_countryISO :: CountryISO

record Appointment =
  a_id :: string
  a_insuredId :: string
  a_scheduleId :: int
  a_countryISO :: CountryISO
  a_status :: AppointmentStatus
  a_createdAt :: string
  a_updatedAt :: string

record AppointmentCreatedEvent =
  ce_appointmentId :: string
  ce_insuredId :: string
  ce_scheduleId :: int
  ce_countryISO :: CountryISO
  ce_createdAt :: string

record AppointmentConfirmedEvent =
  cf_appointmentId :: string
  cf_countryISO :: CountryISO
  cf_confirmedAt :: string
  cf_status :: AppointmentStatus

record AppointmentRDSEntity =
  r_id :: string
  insured_id :: string
  schedule_id :: int
  center_id :: int
  specialty_id :: int
  medic_id :: int
  appointment_date :: string
  r_status :: string
  created_at :: string
  updated_at :: string

record AppointmentResponse =
  success :: bool
  message :: string
  data :: "(string \<times> AppointmentStatus) option"
  error :: "string option"

section \<open>The environment of an invocation and the state of the stores\<close>

text \<open>
  What one Lambda invocation reads from outside is collected in \<open>env\<close>: for every call
  to a store or a transport, the error it is rejected with (if any); the reading of the
  clock (one per invocation); the supply of \<^verbatim>\<open>uuidv4 ()\<close>; and the optional
  \<^verbatim>\<open>ERROR_TOPIC_ARN\<close>. \<open>connect_fault k\<close> is the outcome of the attempt number \<open>k\<close>
  (from 0) to connect to the regional database, \<open>insert_fault\<close> the code and the message
  of the MySQL error of an insert, and \<open>events_failed_entries\<close> the
  \<^verbatim>\<open>FailedEntryCount\<close> of a PutEvents response.
\<close>

record env =
  get_fault :: "js_error option"
  put_fault :: "js_error option"
  scan_fault :: "js_error option"
  update_fault :: "js_error option"
  sns_fault :: "js_error option"
  events_fault :: "js_error option"
  events_failed_entries :: nat
  connect_fault :: "nat \<Rightarrow> js_error option"
  insert_fault :: "(string \<times> string) option"
  now :: string
  uuids :: "nat \<Rightarrow> string"
  error_topic_arn :: "string option"

datatype topic = AppointmentTopic CountryISO | ErrorTopic string

record sns_message =
  TopicArn :: topic
  Message :: string
  Subject :: string
  MessageAttributes :: "(string \<times> string) list"

record bus_entry =
  Source :: string
  DetailType :: string
  Detail :: string
  Resources :: "string list"

record regional_store =
  rows :: "AppointmentRDSEntity list"
  connected :: bool

text \<open>
  The state outside the Lambdas: the DynamoDB table (the Primary Store, in the order a
  Scan reads it), the MySQL table of each country with the cached connection of that
  country's processor, what has been published to the SNS topics and to the EventBridge
  bus, and how many uuids have been drawn.
\<close>

record world =
  appointments :: "Appointment list"
  regional_pe :: regional_store
  regional_cl :: regional_store
  sns_outbox :: "sns_message list"
  bus :: "bus_entry list"
  uuid_count :: nat

definition uuidv4 :: "env \<Rightarrow> world \<Rightarrow> string \<times> world" where
  "uuidv4 e w = (uuids e (uuid_count w), w\<lparr>uuid_count := Suc (uuid_count w)\<rparr>)"

section \<open>The Primary Store (repositories/appointment.repository)\<close>

text \<open>
  The four DynamoDB commands the repository sends. A Put with
  \<^verbatim>\<open>attribute_not_exists(id)\<close> and an Update with \<^verbatim>\<open>attribute_exists(id)\<close> are rejected
  with a ConditionalCheckFailedException when the condition fails. A Scan with
  \<^verbatim>\<open>Limit: 1\<close> reads one item of the table and applies the filter expression to what it
  has read: the limit bounds the items evaluated, not the items matched.
\<close>

definition error_name :: "js_error \<Rightarrow> string" where
  "error_name x =
     (case x of
        Error n m \<Rightarrow> n
      | AppointmentError m c s \<Rightarrow> ''AppointmentError''
      | ValidationError m \<Rightarrow> ''ValidationError''
      | NotFoundError m \<Rightarrow> ''NotFoundError''
      | ConflictError m \<Rightarrow> ''ConflictError'')"

definition ConditionalCheckFailed :: js_error where
  "ConditionalCheckFailed =
     Error ''ConditionalCheckFailedException'' ''The conditional request failed''"

definition PutCommand :: "env \<Rightarrow> Appointment list \<Rightarrow> Appointment \<Rightarrow> js_error + Appointment list" where
  "PutCommand e t item =
     (case put_fault e of
        Some x \<Rightarrow> Inl x
      | None \<Rightarrow>
          if a_id item \<in> set (map a_id t) then Inl ConditionalCheckFailed
          else Inr (t @ [item]))"

definition GetCommand :: "env \<Rightarrow> Appointment list \<Rightarrow> string \<Rightarrow> js_error + Appointment option" where
  "GetCommand e t key =
     (case get_fault e of
        Some x \<Rightarrow> Inl x
      | None \<Rightarrow> Inr (find (\<lambda>x. a_id x = key) t))"

definition UpdateCommand ::
  "env \<Rightarrow> Appointment list \<Rightarrow> string \<Rightarrow> AppointmentStatus \<Rightarrow> string \<Rightarrow> js_error + Appointment list" where
  "UpdateCommand e t key st updatedAt =
     (case update_fault e of
        Some x \<Rightarrow> Inl x
      | None \<Rightarrow>
          if key \<in> set (map a_id t)
          then Inr (map (\<lambda>x. if a_id x = key then x\<lparr>a_status := st, a_updatedAt := updatedAt\<rparr> else x) t)
          else Inl ConditionalCheckFailed)"

definition conflicting :: "int \<Rightarrow> Appointment \<Rightarrow> bool" where
  "conflicting scheduleId x =
     (a_scheduleId x = scheduleId \<and> (a_status x = PENDING \<or> a_status x = PROCESSING))"

definition ScanCommand :: "env \<Rightarrow> Appointment list \<Rightarrow> int \<Rightarrow> nat \<Rightarrow> js_error + Appointment list" where
  "ScanCommand e t scheduleId limit =
     (case scan_fault e of
        Some x \<Rightarrow> Inl x
      | None \<Rightarrow> Inr (filter (conflicting scheduleId) (take limit t)))"

definition AppointmentRepository_create ::
  "env \<Rightarrow> world \<Rightarrow> string \<Rightarrow> int \<Rightarrow> CountryISO \<Rightarrow> AppointmentStatus \<Rightarrow> (js_error + Appointment) \<times> world" where
  "AppointmentRepository_create e w insuredId scheduleId country st =
     (let (uuid, w1) = uuidv4 e w;
          appointment = \<lparr> a_id = uuid, a_insuredId = insuredId, a_scheduleId = scheduleId,
                          a_countryISO = country, a_status = st,
                          a_createdAt = now e, a_updatedAt = now e \<rparr>
      in case PutCommand e (appointments w1) appointment of
           Inr t \<Rightarrow> (Inr appointment, w1\<lparr>appointments := t\<rparr>)
         | Inl x \<Rightarrow>
             (Inl (AppointmentError (''Error al crear la cita: '' @ error_message x)
                     ''CREATE_ERROR'' 500), w1))"

definition findById :: "env \<Rightarrow> world \<Rightarrow> string \<Rightarrow> js_error + Appointment option" where
  "findById e w ident =
     (case GetCommand e (appointments w) ident of
        Inr item \<Rightarrow> Inr item
      | Inl x \<Rightarrow>
          Inl (AppointmentError (''Error al buscar la cita: '' @ error_message x)
                 ''FIND_ERROR'' 500))"

definition updateStatus ::
  "env \<Rightarrow> world \<Rightarrow> string \<Rightarrow> AppointmentStatus \<Rightarrow> (js_error + unit) \<times> world" where
  "updateStatus e w ident st =
     (case UpdateCommand e (appointments w) ident st (now e) of
        Inr t \<Rightarrow> (Inr (), w\<lparr>appointments := t\<rparr>)
      | Inl x \<Rightarrow>
          if error_name x = ''ConditionalCheckFailedException''
          then (Inl (NotFoundError (''Cita con ID '' @ ident @ '' no encontrada'')), w)
          else (Inl (AppointmentError
                       (''Error al actualizar el estado de la cita: '' @ error_message x)
                       ''UPDATE_STATUS_ERROR'' 500), w))"

definition hasConflictingAppointment :: "env \<Rightarrow> world \<Rightarrow> int \<Rightarrow> bool" where
  "hasConflictingAppointment e w scheduleId =
     (case ScanCommand e (appointments w) scheduleId 1 of
        Inr items \<Rightarrow> 0 < length items
      | Inl x \<Rightarrow> False)"

section \<open>Notifications (services/notification.service)\<close>

definition created_data_json :: "AppointmentCreatedEvent \<Rightarrow> json" where
  "created_data_json ev =
     JObj [(''appointmentId'', JStr (ce_appointmentId ev)),
           (''insuredId'', JStr (ce_insuredId ev)),
           (''scheduleId'', JNum (ce_scheduleId ev)),
           (''countryISO'', JStr (CountryISO_str (ce_countryISO ev))),
           (''createdAt'', JStr (ce_createdAt ev))]"

definition publishAppointmentCreated ::
  "env \<Rightarrow> world \<Rightarrow> AppointmentCreatedEvent \<Rightarrow> (js_error + unit) \<times> world" where
  "publishAppointmentCreated e w ev =
     (let msg = JObj [(''eventType'', JStr ''AppointmentCreated''),
                      (''timestamp'', JStr (now e)),
                      (''data'', created_data_json ev)];
          command = \<lparr> TopicArn = AppointmentTopic (ce_countryISO ev),
                      Message = JSON_stringify msg,
                      Subject = ''Appointment Created - '' @ CountryISO_str (ce_countryISO ev),
                      MessageAttributes =
                        [(''countryISO'', CountryISO_str (ce_countryISO ev)),
                         (''eventType'', ''AppointmentCreated'')] \<rparr>
      in case sns_fault e of
           None \<Rightarrow> (Inr (), w\<lparr>sns_outbox := sns_outbox w @ [command]\<rparr>)
         | Some x \<Rightarrow>
             (Inl (AppointmentError
                     (''Error al publicar evento de cita creada: '' @ error_message x)
                     ''SNS_PUBLISH_ERROR'' 500), w))"

definition confirmed_detail_json :: "AppointmentConfirmedEvent \<Rightarrow> string \<Rightarrow> json" where
  "confirmed_detail_json ev timestamp =
     JObj [(''appointmentId'', JStr (cf_appointmentId ev)),
           (''countryISO'', JStr (CountryISO_str (cf_countryISO ev))),
           (''status'', JStr (AppointmentStatus_str (cf_status ev))),
           (''confirmedAt'', JStr (cf_confirmedAt ev)),
           (''timestamp'', JStr timestamp)]"

definition publishAppointmentConfirmed ::
  "env \<Rightarrow> world \<Rightarrow> AppointmentConfirmedEvent \<Rightarrow> (js_error + unit) \<times> world" where
  "publishAppointmentConfirmed e w ev =
     (let entry = \<lparr> Source = ''appointment.service'',
                    DetailType = ''Appointment Confirmed'',
                    Detail = JSON_stringify (confirmed_detail_json ev (now e)),
                    Resources = [''appointment:'' @ cf_appointmentId ev] \<rparr>;
          sent = (case events_fault e of
                    Some x \<Rightarrow> Inl x
                  | None \<Rightarrow>
                      if 0 < events_failed_entries e
                      then Inl (Error ''Error''
                             (''Failed to publish '' @ show_nat (events_failed_entries e) @ '' events''))
                      else Inr ())
      in case sent of
           Inr u \<Rightarrow> (Inr (), w\<lparr>bus := bus w @ [entry]\<rparr>)
         | Inl x \<Rightarrow>
             (Inl (AppointmentError
                     (''Error al publicar evento de cita confirmada: '' @ error_message x)
                     ''EVENTBRIDGE_PUBLISH_ERROR'' 500), w))"

text \<open>
  \<open>notifyError\<close> never throws: a failure of either publication ends it. The \<^verbatim>\<open>stack\<close>
  of the error, which the engine writes, is left out of the event.
\<close>

definition notifyError :: "env \<Rightarrow> world \<Rightarrow> js_error \<Rightarrow> (string \<times> json) list \<Rightarrow> world" where
  "notifyError e w err context =
     (let errorEvent = JObj [(''eventType'', JStr ''SystemError''),
                             (''timestamp'', JStr (now e)),
                             (''error'', JObj [(''message'', JStr (error_message err)),
                                               (''name'', JStr (error_name err))]),
                             (''context'', JObj context)];
          toTopic = (case error_topic_arn e of
                       None \<Rightarrow> Inr w
                     | Some arn \<Rightarrow>
                         (case sns_fault e of
                            Some x \<Rightarrow> Inl x
                          | None \<Rightarrow>
                              Inr (w\<lparr>sns_outbox := sns_outbox w @
                                     [\<lparr> TopicArn = ErrorTopic arn,
                                        Message = JSON_stringify errorEvent,
                                        Subject = ''System Error - '' @ error_name err,
                                        MessageAttributes = [] \<rparr>]\<rparr>)))
      in case toTopic of
           Inl x \<Rightarrow> w
         | Inr w1 \<Rightarrow>
             (case events_fault e of
                Some x \<Rightarrow> w1
              | None \<Rightarrow>
                  if 0 < events_failed_entries e then w1
                  else w1\<lparr>bus := bus w1 @
                         [\<lparr> Source = ''appointment.service'',
                            DetailType = ''System Error'',
                            Detail = JSON_stringify errorEvent,
                            Resources = [] \<rparr>]\<rparr>))"

section \<open>Request validation (services/validation.service)\<close>

text \<open>
  \<open>validateAppointmentRequest\<close> follows the Joi schema: \<open>insuredId\<close> a string of five
  digits, \<open>scheduleId\<close> a positive safe integer, \<open>countryISO\<close> one of PE and CL, all
  three required, unknown keys stripped, every failed rule reported
  (\<^verbatim>\<open>abortEarly: false\<close>). Joi converts a string that holds a number, or a string that
  holds an object, before it validates; those two inputs are outside this model, which
  says so by returning \<open>None\<close>.
\<close>

definition is_five_digits :: "string \<Rightarrow> bool" where
  "is_five_digits s = (length s = 5 \<and> list_all is_digit s)"

definition validate_insuredId :: "json option \<Rightarrow> string + string" where
  "validate_insuredId v =
     (case v of
        None \<Rightarrow> Inl ''insuredId es requerido''
      | Some (JStr s) \<Rightarrow>
          if s = [] then Inl (quote ''insuredId'' @ '' is not allowed to be empty'')
          else if is_five_digits s then Inr s
          else Inl (''insuredId debe ser un c'' @ [CHR 0xF3] @ ''digo de 5 d'' @ [CHR 0xED] @ ''gitos'')
      | Some other \<Rightarrow> Inl (quote ''insuredId'' @ '' must be a string''))"

definition validate_scheduleId :: "json option \<Rightarrow> (string + int) option" where
  "validate_scheduleId v =
     (case v of
        None \<Rightarrow> Some (Inl ''scheduleId es requerido'')
      | Some (JNum n) \<Rightarrow>
          Some (if 9007199254740991 < \<bar>n\<bar> then Inl (quote ''scheduleId'' @ '' must be a safe number'')
                else if n \<le> 0 then Inl (''scheduleId debe ser un n'' @ [CHR 0xFA] @ ''mero positivo'')
                else Inr n)
      | Some (JStr s) \<Rightarrow> None
      | Some other \<Rightarrow> Some (Inl (quote ''scheduleId'' @ '' must be a number'')))"

definition validate_countryISO :: "json option \<Rightarrow> string + CountryISO" where
  "validate_countryISO v =
     (case v of
        None \<Rightarrow> Inl ''countryISO es requerido''
      | Some x \<Rightarrow>
          if x = JStr ''PE'' then Inr PE
          else if x = JStr ''CL'' then Inr CL
          else Inl ''countryISO debe ser PE o CL'')"

definition rule_messages :: "string + 'a \<Rightarrow> string list" where
  "rule_messages r = (case r of Inl m \<Rightarrow> [m] | Inr x \<Rightarrow> [])"

definition invalid_request :: "string \<Rightarrow> js_error" where
  "invalid_request details =
     ValidationError (''Datos de solicitud inv'' @ [CHR 0xE1] @ ''lidos: '' @ details)"

definition validateAppointmentRequest :: "json \<Rightarrow> (js_error + AppointmentRequest) option" where
  "validateAppointmentRequest request =
     (case request of
        JObj kvs \<Rightarrow>
          (let ins = validate_insuredId (map_of (rev kvs) ''insuredId'');
               cty = validate_countryISO (map_of (rev kvs) ''countryISO'')
           in case validate_scheduleId (map_of (rev kvs) ''scheduleId'') of
                None \<Rightarrow> None
              | Some sch \<Rightarrow>
                  Some (case (ins, sch, cty) of
                          (Inr i, Inr n, Inr c) \<Rightarrow>
                            Inr \<lparr> rq_insuredId = i, rq_scheduleId = n, rq_countryISO = c \<rparr>
                        | other \<Rightarrow>
                            Inl (invalid_request
                                  (join '', '' (rule_messages ins @ rule_messages sch
                                                @ rule_messages cty)))))
      | JStr s \<Rightarrow> None
      | other \<Rightarrow> Some (Inl (invalid_request (quote ''value'' @ '' must be of type object''))))"

section \<open>The appointment service (services/appointment.service)\<close>

text \<open>
  The service receives its collaborators through its constructor. The repository and
  the notification service are the ones above; the validation service and the optional
  schedule service (for which the repository has no implementation) are parameters.
  \<open>None\<close> from the validation service means an input outside the model.
\<close>

record AppointmentService =
  validationService :: "json \<Rightarrow> (js_error + AppointmentRequest) option"
  scheduleService :: "(int \<Rightarrow> js_error + bool) option"

definition checkScheduleAvailability :: "AppointmentService \<Rightarrow> int \<Rightarrow> js_error + unit" where
  "checkScheduleAvailability svc scheduleId =
     (case scheduleService svc of
        None \<Rightarrow> Inr ()
      | Some validateScheduleAvailability \<Rightarrow>
          (case validateScheduleAvailability scheduleId of
             Inl x \<Rightarrow> Inl x
           | Inr isAvailable \<Rightarrow>
               if \<not> isAvailable
               then Inl (ConflictError (''El horario '' @ show_int scheduleId @ '' no est''
                                        @ [CHR 0xE1] @ '' disponible''))
               else Inr ()))"

definition checkExistingConflicts :: "env \<Rightarrow> world \<Rightarrow> int \<Rightarrow> js_error + unit" where
  "checkExistingConflicts e w scheduleId =
     (if hasConflictingAppointment e w scheduleId
      then Inl (ConflictError (''Ya existe una cita para el horario '' @ show_int scheduleId))
      else Inr ())"

definition createAppointmentRecord ::
  "env \<Rightarrow> world \<Rightarrow> AppointmentRequest \<Rightarrow> (js_error + Appointment) \<times> world" where
  "createAppointmentRecord e w request =
     AppointmentRepository_create e w (rq_insuredId request) (rq_scheduleId request)
       (rq_countryISO request) PENDING"

definition publishCreatedEvent :: "env \<Rightarrow> world \<Rightarrow> Appointment \<Rightarrow> (js_error + unit) \<times> world" where
  "publishCreatedEvent e w appointment =
     publishAppointmentCreated e w
       \<lparr> ce_appointmentId = a_id appointment,
         ce_insuredId = a_insuredId appointment,
         ce_scheduleId = a_scheduleId appointment,
         ce_countryISO = a_countryISO appointment,
         ce_createdAt = a_createdAt appointment \<rparr>"

definition buildSuccessResponse :: "Appointment \<Rightarrow> AppointmentResponse" where
  "buildSuccessResponse appointment =
     \<lparr> success = True,
       message = ''El agendamiento est'' @ [CHR 0xE1] @ '' en proceso'',
       data = Some (a_id appointment, a_status appointment),
       error = None \<rparr>"

definition handleError :: "js_error \<Rightarrow> AppointmentResponse" where
  "handleError err =
     (case err of
        ValidationError m \<Rightarrow>
          \<lparr> success = False,
            message = ''Datos de solicitud inv'' @ [CHR 0xE1] @ ''lidos'',
            data = None, error = Some m \<rparr>
      | ConflictError m \<Rightarrow>
          \<lparr> success = False, message = ''Conflicto en la solicitud'',
            data = None, error = Some m \<rparr>
      | AppointmentError m c s \<Rightarrow>
          \<lparr> success = False, message = ''Error en el procesamiento'',
            data = None, error = Some m \<rparr>
      | NotFoundError m \<Rightarrow>
          \<lparr> success = False, message = ''Error en el procesamiento'',
            data = None, error = Some m \<rparr>
      | Error n m \<Rightarrow>
          \<lparr> success = False, message = ''Error interno del servidor'',
            data = None, error = Some ''Ha ocurrido un error inesperado'' \<rparr>)"

definition createAppointment ::
  "AppointmentService \<Rightarrow> env \<Rightarrow> world \<Rightarrow> json \<Rightarrow> (AppointmentResponse \<times> world) option" where
  "createAppointment svc e w requestData =
     (case validationService svc requestData of
        None \<Rightarrow> None
      | Some (Inl x) \<Rightarrow> Some (handleError x, w)
      | Some (Inr validatedRequest) \<Rightarrow>
          Some
           (case checkScheduleAvailability svc (rq_scheduleId validatedRequest) of
              Inl x \<Rightarrow> (handleError x, w)
            | Inr u \<Rightarrow>
                (case checkExistingConflicts e w (rq_scheduleId validatedRequest) of
                   Inl x \<Rightarrow> (handleError x, w)
                 | Inr u \<Rightarrow>
                     (case createAppointmentRecord e w validatedRequest of
                        (Inl x, w1) \<Rightarrow> (handleError x, w1)
                      | (Inr appointment, w1) \<Rightarrow>
                          (case publishCreatedEvent e w1 appointment of
                             (Inl x, w2) \<Rightarrow> (handleError x, w2)
                           | (Inr u, w2) \<Rightarrow> (buildSuccessResponse appointment, w2))))))"

definition updateAppointmentStatus ::
  "env \<Rightarrow> world \<Rightarrow> string \<Rightarrow> AppointmentStatus \<Rightarrow> (js_error + unit) \<times> world" where
  "updateAppointmentStatus e w appointmentId st =
     (case findById e w appointmentId of
        Inl x \<Rightarrow> (Inl x, w)
      | Inr None \<Rightarrow>
          (Inl (NotFoundError (''Cita con ID '' @ appointmentId @ '' no encontrada'')), w)
      | Inr (Some existingAppointment) \<Rightarrow>
          (case validateStatusTransition (a_status existingAppointment) st of
             Inl x \<Rightarrow> (Inl x, w)
           | Inr u \<Rightarrow> updateStatus e w appointmentId st))"

section \<open>The main Lambda: HTTP create and the Reconciler (handlers/appointment.handler)\<close>

record APIGatewayProxyResult =
  statusCode :: int
  headers :: "(string \<times> string) list"
  result_body :: string

record SQSRecord =
  messageId :: string
  body :: string

definition createResponse :: "int \<Rightarrow> json \<Rightarrow> APIGatewayProxyResult" where
  "createResponse code b =
     \<lparr> statusCode = code,
       headers = [(''Content-Type'', ''application/json''),
                  (''Access-Control-Allow-Origin'', ''*''),
                  (''Access-Control-Allow-Methods'', ''GET, POST, OPTIONS''),
                  (''Access-Control-Allow-Headers'', ''Content-Type, Authorization'')],
       result_body = JSON_stringify b \<rparr>"

text \<open>The object that \<^verbatim>\<open>JSON.stringify\<close> sees for an AppointmentResponse: an absent
  \<open>data\<close> or \<open>error\<close> is no member.\<close>

definition response_json :: "AppointmentResponse \<Rightarrow> json" where
  "response_json r =
     JObj ([(''success'', JBool (success r)), (''message'', JStr (message r))]
           @ (case data r of
                None \<Rightarrow> []
              | Some (i, st) \<Rightarrow>
                  [(''data'', JObj [(''appointmentId'', JStr i),
                                    (''status'', JStr (AppointmentStatus_str st))])])
           @ (case error r of None \<Rightarrow> [] | Some m \<Rightarrow> [(''error'', JStr m)]))"

text \<open>
  \<open>createErrorResponse\<close> is the mapping from an error to a status code that the other
  paths of the handler use for an error that reaches them.
\<close>

definition createErrorResponse :: "js_error \<Rightarrow> APIGatewayProxyResult" where
  "createErrorResponse err =
     (case (error_statusCode err, error_code err) of
        (Some s, Some c) \<Rightarrow>
          createResponse s (JObj [(''success'', JBool False),
                                  (''message'', JStr ''Error en la solicitud''),
                                  (''error'', JStr (error_message err)),
                                  (''code'', JStr c)])
      | other \<Rightarrow>
          createResponse 500
            (JObj [(''success'', JBool False),
                   (''message'', JStr ''Error interno del servidor''),
                   (''error'', JStr ''Ha ocurrido un error inesperado. Por favor intente nuevamente.'')]))"

definition error_body :: "string \<Rightarrow> string \<Rightarrow> json" where
  "error_body m err = JObj [(''success'', JBool False), (''message'', JStr m), (''error'', JStr err)]"

definition handleCreateAppointment ::
  "AppointmentService \<Rightarrow> env \<Rightarrow> world \<Rightarrow> string option \<Rightarrow> (APIGatewayProxyResult \<times> world) option" where
  "handleCreateAppointment service e w event_body =
     (if event_body = None \<or> event_body = Some []
      then Some (createResponse 400
             (error_body ''Request body is required''
                (''El cuerpo de la petici'' @ [CHR 0xF3] @ ''n es requerido'')), w)
      else
        (case JSON_parse (the event_body) of
           Inl x \<Rightarrow>
             Some (createResponse 400
               (error_body ''Invalid JSON in request body''
                  (''El formato JSON es inv'' @ [CHR 0xE1] @ ''lido'')), w)
         | Inr requestData \<Rightarrow>
             (case createAppointment service e w requestData of
                None \<Rightarrow> None
              | Some (result, w1) \<Rightarrow>
                  Some (createResponse (if success result then 201 else 400)
                          (response_json result), w1))))"

text \<open>
  The body of the loop of \<open>handleSQSMessages\<close>: the confirmation is the \<open>detail\<close> of
  the message when that is truthy, the message itself otherwise, and the status written
  is always COMPLETED. An \<open>appointmentId\<close> that is not a string is outside the model
  (\<open>None\<close>). The first record that throws ends the invocation with its error.
\<close>

definition handleSQSRecord ::
  "env \<Rightarrow> world \<Rightarrow> SQSRecord \<Rightarrow> ((js_error + unit) \<times> world) option" where
  "handleSQSRecord e w record =
     (case JSON_parse (body record) of
        Inl x \<Rightarrow> Some (Inl x, w)
      | Inr messageBody \<Rightarrow>
          (case get_prop messageBody ''detail'' of
             Inl x \<Rightarrow> Some (Inl x, w)
           | Inr detail \<Rightarrow>
               (let confirmationEvent =
                      (case detail of
                         None \<Rightarrow> messageBody
                       | Some d \<Rightarrow> if js_truthy detail then d else messageBody)
                in case get_prop confirmationEvent ''appointmentId'' of
                     Inl x \<Rightarrow> Some (Inl x, w)
                   | Inr (Some (JStr appointmentId)) \<Rightarrow>
                       Some (updateAppointmentStatus e w appointmentId COMPLETED)
                   | Inr other \<Rightarrow> None)))"

fun handleSQSMessages ::
  "env \<Rightarrow> world \<Rightarrow> SQSRecord list \<Rightarrow> ((js_error + unit) \<times> world) option" where
  "handleSQSMessages e w [] = Some (Inr (), w)"
| "handleSQSMessages e w (record # records) =
     (case handleSQSRecord e w record of
        None \<Rightarrow> None
      | Some (Inl x, w1) \<Rightarrow> Some (Inl x, w1)
      | Some (Inr u, w1) \<Rightarrow> handleSQSMessages e w1 records)"

section \<open>The Regional Store (repositories/appointment-rds.repository)\<close>

definition regional :: "CountryISO \<Rightarrow> world \<Rightarrow> regional_store" where
  "regional c w = (case c of PE \<Rightarrow> regional_pe w | CL \<Rightarrow> regional_cl w)"

definition set_regional :: "CountryISO \<Rightarrow> regional_store \<Rightarrow> world \<Rightarrow> world" where
  "set_regional c s w = (case c of PE \<Rightarrow> w\<lparr>regional_pe := s\<rparr> | CL \<Rightarrow> w\<lparr>regional_cl := s\<rparr>)"

text \<open>
  The retry loop of \<open>getConnection\<close>: up to three attempts; the third failure throws,
  an earlier one waits and tries again. The branch after the loop is the guard the
  source keeps for a connection that is still missing.
\<close>

function connect_loop :: "env \<Rightarrow> CountryISO \<Rightarrow> nat \<Rightarrow> js_error + unit" where
  "connect_loop e country retries =
     (if retries < 3 then
        (case connect_fault e retries of
           None \<Rightarrow> Inr ()
         | Some x \<Rightarrow>
             if 3 \<le> Suc retries
             then Inl (AppointmentError
                         (''Error al conectar con RDS '' @ CountryISO_str country @ '' despu''
                          @ [CHR 0xE9] @ ''s de 3 intentos: '' @ error_message x)
                         ''CONNECTION_ERROR'' 500)
             else connect_loop e country (Suc retries))
      else Inl (AppointmentError
                  (''Error cr'' @ [CHR 0xED] @ ''tico: no se pudo establecer conexi'' @ [CHR 0xF3]
                   @ ''n con RDS '' @ CountryISO_str country)
                  ''CONNECTION_ERROR'' 500))"
  by pat_completeness auto
termination
  by (relation "measure (\<lambda>(e, country, retries). 3 - retries)") auto

definition getConnection :: "env \<Rightarrow> CountryISO \<Rightarrow> world \<Rightarrow> (js_error + unit) \<times> world" where
  "getConnection e country w =
     (if connected (regional country w) then (Inr (), w)
      else (case connect_loop e country 0 of
              Inr u \<Rightarrow> (Inr (), set_regional country ((regional country w)\<lparr>connected := True\<rparr>) w)
            | Inl x \<Rightarrow> (Inl x, w)))"

text \<open>
  The INSERT fails with the MySQL error of the environment, or with ER_DUP_ENTRY when
  the table already holds the primary key.
\<close>

definition execute_insert ::
  "env \<Rightarrow> AppointmentRDSEntity list \<Rightarrow> AppointmentRDSEntity \<Rightarrow> (string \<times> string) + AppointmentRDSEntity list" where
  "execute_insert e t row =
     (case insert_fault e of
        Some x \<Rightarrow> Inl x
      | None \<Rightarrow>
          if r_id row \<in> set (map r_id t)
          then Inl (''ER_DUP_ENTRY'', ''Duplicate entry for key PRIMARY'')
          else Inr (t @ [row]))"

definition AppointmentRDSRepository_create ::
  "env \<Rightarrow> CountryISO \<Rightarrow> world \<Rightarrow> string \<Rightarrow> int \<Rightarrow> ScheduleInfo \<Rightarrow> string
     \<Rightarrow> (js_error + AppointmentRDSEntity) \<times> world" where
  "AppointmentRDSRepository_create e country w insuredId scheduleId info st =
     (case getConnection e country w of
        (Inl x, w1) \<Rightarrow> (Inl x, w1)
      | (Inr u, w1) \<Rightarrow>
          (let (uuid, w2) = uuidv4 e w1;
               entity = \<lparr> r_id = uuid, insured_id = insuredId, schedule_id = scheduleId,
                          center_id = centerId info, specialty_id = specialtyId info,
                          medic_id = medicId info, appointment_date = appointmentDate info,
                          r_status = st, created_at = now e, updated_at = now e \<rparr>
           in case execute_insert e (rows (regional country w2)) entity of
                Inr t \<Rightarrow> (Inr entity, set_regional country ((regional country w2)\<lparr>rows := t\<rparr>) w2)
              | Inl (code, msg) \<Rightarrow>
                  if code = ''ER_DUP_ENTRY''
                  then (Inl (AppointmentError ''Ya existe una cita con estos datos''
                               ''DUPLICATE_ENTRY'' 409), w2)
                  else (Inl (AppointmentError
                               (''Error al crear la cita en RDS '' @ CountryISO_str country @ '': ''
                                @ (if msg = [] then ''Error desconocido'' else msg))
                               ''CREATE_RDS_ERROR'' 500), w2)))"

section \<open>The Country Processor (services/appointment-processor.service)\<close>

definition validateEvent :: "CountryISO \<Rightarrow> AppointmentCreatedEvent \<Rightarrow> js_error + unit" where
  "validateEvent country ev =
     (if ce_appointmentId ev = []
      then Inl (AppointmentError ''Appointment ID is required'' ''VALIDATION_ERROR'' 400)
      else if ce_insuredId ev = []
      then Inl (AppointmentError ''Insured ID is required'' ''VALIDATION_ERROR'' 400)
      else if ce_scheduleId ev = 0 \<or> ce_scheduleId ev \<le> 0
      then Inl (AppointmentError ''Valid Schedule ID is required'' ''VALIDATION_ERROR'' 400)
      else if ce_countryISO ev \<noteq> country
      then Inl (AppointmentError
                  (''Country mismatch: expected '' @ CountryISO_str country @ '', got ''
                   @ CountryISO_str (ce_countryISO ev))
                  ''VALIDATION_ERROR'' 400)
      else Inr ())"

text \<open>The country hooks of both subclasses only write to the log.\<close>

definition executeCountrySpecificLogic :: "CountryISO \<Rightarrow> AppointmentCreatedEvent \<Rightarrow> js_error + unit" where
  "executeCountrySpecificLogic country ev = Inr ()"

definition createRDSRecord ::
  "env \<Rightarrow> CountryISO \<Rightarrow> world \<Rightarrow> AppointmentCreatedEvent \<Rightarrow> ScheduleInfo
     \<Rightarrow> (js_error + AppointmentRDSEntity) \<times> world" where
  "createRDSRecord e country w ev scheduleInfo =
     AppointmentRDSRepository_create e country w (ce_insuredId ev) (ce_scheduleId ev)
       scheduleInfo (AppointmentStatus_str PROCESSING)"

definition publishConfirmation ::
  "env \<Rightarrow> CountryISO \<Rightarrow> world \<Rightarrow> AppointmentCreatedEvent \<Rightarrow> AppointmentRDSEntity
     \<Rightarrow> (js_error + unit) \<times> world" where
  "publishConfirmation e country w ev rdsEntity =
     publishAppointmentConfirmed e w
       \<lparr> cf_appointmentId = ce_appointmentId ev,
         cf_countryISO = country,
         cf_confirmedAt = now e,
         cf_status = COMPLETED \<rparr>"

definition processAppointment_steps ::
  "env \<Rightarrow> CountryISO \<Rightarrow> world \<Rightarrow> AppointmentCreatedEvent \<Rightarrow> (js_error + unit) \<times> world" where
  "processAppointment_steps e country w ev =
     (case validateEvent country ev of
        Inl x \<Rightarrow> (Inl x, w)
      | Inr u \<Rightarrow>
          (case executeCountrySpecificLogic country ev of
             Inl x \<Rightarrow> (Inl x, w)
           | Inr u \<Rightarrow>
               (let scheduleInfo = getScheduleInformation (now e) (ce_scheduleId ev)
                in case createRDSRecord e country w ev scheduleInfo of
                     (Inl x, w1) \<Rightarrow> (Inl x, w1)
                   | (Inr rdsEntity, w1) \<Rightarrow> publishConfirmation e country w1 ev rdsEntity)))"

definition processAppointment ::
  "env \<Rightarrow> CountryISO \<Rightarrow> world \<Rightarrow> AppointmentCreatedEvent \<Rightarrow> (js_error + unit) \<times> world" where
  "processAppointment e country w ev =
     (case processAppointment_steps e country w ev of
        (Inr u, w1) \<Rightarrow> (Inr (), w1)
      | (Inl x, w1) \<Rightarrow>
          (Inl x, notifyError e w1 x
                    [(''appointmentId'', JStr (ce_appointmentId ev)),
                     (''country'', JStr (CountryISO_str country)),
                     (''scheduleId'', JNum (ce_scheduleId ev))]))"

section \<open>The country Lambdas (handlers/appointment-pe.handler, appointment-cl.handler)\<close>

text \<open>
  What \<open>parseAppointmentEvent\<close> returns before any check: the five properties as they
  are read from the parsed message, \<open>None\<close> for \<^verbatim>\<open>undefined\<close>. The two handlers have
  the same parser.
\<close>

record raw_event =
  raw_appointmentId :: "json option"
  raw_insuredId :: "json option"
  raw_scheduleId :: "json option"
  raw_countryISO :: "json option"
  raw_createdAt :: "json option"

definition parseAppointmentEvent_body :: "string \<Rightarrow> js_error + raw_event" where
  "parseAppointmentEvent_body messageBody =
     (case JSON_parse messageBody of
        Inl x \<Rightarrow> Inl x
      | Inr parsedBody \<Rightarrow>
          (case get_prop parsedBody ''Message'' of
             Inl x \<Rightarrow> Inl x
           | Inr msg \<Rightarrow>
               (case (if js_truthy msg then JSON_parse (js_String_opt msg) else Inr parsedBody) of
                  Inl x \<Rightarrow> Inl x
                | Inr eventData \<Rightarrow>
                    (case get_prop eventData ''data'' of
                       Inl x \<Rightarrow> Inl x
                     | Inr d \<Rightarrow>
                         (let dat = (case d of
                                       None \<Rightarrow> eventData
                                     | Some dv \<Rightarrow> if js_truthy d then dv else eventData)
                          in case (get_prop dat ''appointmentId'', get_prop dat ''insuredId'',
                                   get_prop dat ''scheduleId'', get_prop dat ''countryISO'',
                                   get_prop dat ''createdAt'') of
                               (Inr a, Inr i, Inr s, Inr c, Inr t) \<Rightarrow>
                                 Inr \<lparr> raw_appointmentId = a, raw_insuredId = i, raw_scheduleId = s,
                                       raw_countryISO = c, raw_createdAt = t \<rparr>
                             | (Inl x, rest) \<Rightarrow> Inl x
                             | (Inr a, Inl x, rest) \<Rightarrow> Inl x
                             | (Inr a, Inr i, Inl x, rest) \<Rightarrow> Inl x
                             | (Inr a, Inr i, Inr s, Inl x, rest) \<Rightarrow> Inl x
                             | (Inr a, Inr i, Inr s, Inr c, Inl x) \<Rightarrow> Inl x)))))"

definition parseAppointmentEvent :: "string \<Rightarrow> js_error + raw_event" where
  "parseAppointmentEvent messageBody =
     (case parseAppointmentEvent_body messageBody of
        Inr ev \<Rightarrow> Inr ev
      | Inl x \<Rightarrow>
          Inl (AppointmentError (''Invalid message format: '' @ error_message x)
                 ''MESSAGE_PARSE_ERROR'' 400))"

definition country_name :: "CountryISO \<Rightarrow> string" where
  "country_name c = (case c of PE \<Rightarrow> ''Peru'' | CL \<Rightarrow> ''Chile'')"

definition country_adjective :: "CountryISO \<Rightarrow> string" where
  "country_adjective c = (case c of PE \<Rightarrow> ''Peruvian'' | CL \<Rightarrow> ''Chilean'')"

definition lambda_name :: "CountryISO \<Rightarrow> string" where
  "lambda_name c = (case c of PE \<Rightarrow> ''appointment-pe'' | CL \<Rightarrow> ''appointment-cl'')"

text \<open>
  \<open>validateChileanSpecificRules\<close> only logs, but it calls \<^verbatim>\<open>insuredId.startsWith\<close>,
  which throws a TypeError on a value that is not a string.
\<close>

definition validateChileanSpecificRules :: "raw_event \<Rightarrow> js_error + unit" where
  "validateChileanSpecificRules ev =
     (case raw_insuredId ev of
        Some (JStr s) \<Rightarrow> Inr ()
      | other \<Rightarrow> Inl (Error ''TypeError'' ''insuredId.startsWith is not a function''))"

definition validateCountryEvent :: "CountryISO \<Rightarrow> raw_event \<Rightarrow> js_error + unit" where
  "validateCountryEvent country ev =
     (if raw_countryISO ev \<noteq> Some (JStr (CountryISO_str country))
      then Inl (AppointmentError
                  (''Invalid country for '' @ country_name country @ '' processor: received ''
                   @ js_String_opt (raw_countryISO ev))
                  ''INVALID_COUNTRY'' 400)
      else if \<not> js_truthy (raw_appointmentId ev) \<or> \<not> js_truthy (raw_insuredId ev)
              \<or> \<not> js_truthy (raw_scheduleId ev)
      then Inl (AppointmentError
                  (''Missing required fields in '' @ country_name country @ '' appointment event'')
                  ''MISSING_REQUIRED_FIELDS'' 400)
      else if \<not> is_five_digits (js_String_opt (raw_insuredId ev))
      then Inl (AppointmentError
                  (''Invalid '' @ country_adjective country @ '' insured ID format: ''
                   @ js_String_opt (raw_insuredId ev))
                  ''INVALID_INSURED_ID_FORMAT'' 400)
      else (case country of PE \<Rightarrow> Inr () | CL \<Rightarrow> validateChileanSpecificRules ev))"

text \<open>
  The processor is written for events that have the declared types. A parsed event that
  passes \<open>validateCountryEvent\<close> with a property of another type is outside the model.
\<close>

definition asCreatedEvent :: "raw_event \<Rightarrow> AppointmentCreatedEvent option" where
  "asCreatedEvent ev =
     (case (raw_appointmentId ev, raw_insuredId ev, raw_scheduleId ev, raw_countryISO ev, raw_createdAt ev) of
        (Some (JStr a), Some (JStr i), Some (JNum s), Some (JStr c), Some (JStr t)) \<Rightarrow>
          (if c = ''PE'' then Some \<lparr> ce_appointmentId = a, ce_insuredId = i, ce_scheduleId = s,
                                     ce_countryISO = PE, ce_createdAt = t \<rparr>
           else if c = ''CL'' then Some \<lparr> ce_appointmentId = a, ce_insuredId = i, ce_scheduleId = s,
                                          ce_countryISO = CL, ce_createdAt = t \<rparr>
           else None)
      | other \<Rightarrow> None)"

definition processRecord ::
  "env \<Rightarrow> CountryISO \<Rightarrow> world \<Rightarrow> SQSRecord \<Rightarrow> ((js_error + unit) \<times> world) option" where
  "processRecord e country w record =
     (case parseAppointmentEvent (body record) of
        Inl x \<Rightarrow> Some (Inl x, w)
      | Inr appointmentEvent \<Rightarrow>
          (case validateCountryEvent country appointmentEvent of
             Inl x \<Rightarrow> Some (Inl x, w)
           | Inr u \<Rightarrow>
               (case asCreatedEvent appointmentEvent of
                  None \<Rightarrow> None
                | Some ev \<Rightarrow> Some (processAppointment e country w ev))))"

text \<open>
  The loop of the handler: a record that throws adds its message to \<open>errors\<close> and is
  reported through \<open>notifyError\<close>; the loop goes on with the next record.
\<close>

fun processRecords ::
  "env \<Rightarrow> CountryISO \<Rightarrow> world \<Rightarrow> string list \<Rightarrow> SQSRecord list \<Rightarrow> (string list \<times> world) option" where
  "processRecords e country w errors [] = Some (errors, w)"
| "processRecords e country w errors (record # records) =
     (case processRecord e country w record of
        None \<Rightarrow> None
      | Some (Inr u, w1) \<Rightarrow> processRecords e country w1 errors records
      | Some (Inl x, w1) \<Rightarrow>
          (let errorMessage = ''Error processing '' @ country_name country @ '' appointment: ''
                              @ error_message x
           in processRecords e country
                (notifyError e w1 x
                   [(''country'', JStr (CountryISO_str country)),
                    (''messageId'', JStr (messageId record)),
                    (''sqsBody'', JStr (body record)),
                    (''lambda'', JStr (lambda_name country))])
                (errors @ [errorMessage]) records))"

definition country_handler ::
  "env \<Rightarrow> CountryISO \<Rightarrow> world \<Rightarrow> SQSRecord list \<Rightarrow> ((js_error + unit) \<times> world) option" where
  "country_handler e country w records =
     (case processRecords e country w [] records of
        None \<Rightarrow> None
      | Some (errors, w1) \<Rightarrow>
          if 0 < length errors
          then Some (Inl (AppointmentError
                            (''Failed to process '' @ show_nat (length errors) @ '' messages: ''
                             @ join ''; '' errors)
                            ''BATCH_PROCESSING_ERROR'' 500), w1)
          else Some (Inr (), w1))"

section \<open>The transport between the stages (serverless.yml)\<close>

text \<open>
  The SNS subscription of a country queue delivers the messages of that country's topic
  whose \<open>countryISO\<close> attribute matches the filter policy, wrapped in the notification
  envelope (raw delivery is not enabled), of which the type, the subject and the message
  are kept. The EventBridge rule delivers to the
  confirmation queue the entries of source \<open>appointment.service\<close> and detail type
  \<open>Appointment Confirmed\<close>, as an event whose \<open>detail\<close> is the parsed \<open>Detail\<close>.
\<close>

definition sns_envelope :: "sns_message \<Rightarrow> string" where
  "sns_envelope m =
     JSON_stringify (JObj [(''Type'', JStr ''Notification''),
                           (''Subject'', JStr (Subject m)),
                           (''Message'', JStr (Message m))])"

definition country_queue :: "CountryISO \<Rightarrow> sns_message list \<Rightarrow> SQSRecord list" where
  "country_queue country published =
     map (\<lambda>m. \<lparr> messageId = ''sns-'' @ country_name country, body = sns_envelope m \<rparr>)
       (filter (\<lambda>m. TopicArn m = AppointmentTopic country
                     \<and> map_of (MessageAttributes m) ''countryISO'' = Some (CountryISO_str country))
          published)"

definition bus_envelope :: "bus_entry \<Rightarrow> string option" where
  "bus_envelope en =
     (case parse_json (Detail en) of
        None \<Rightarrow> None
      | Some d \<Rightarrow>
          Some (JSON_stringify (JObj [(''version'', JStr ''0''),
                                      (''detail-type'', JStr (DetailType en)),
                                      (''source'', JStr (Source en)),
                                      (''resources'', JArr (map JStr (Resources en))),
                                      (''detail'', d)])))"

definition confirmation_queue :: "bus_entry list \<Rightarrow> SQSRecord list" where
  "confirmation_queue entries =
     concat (map (\<lambda>en. case bus_envelope en of
                          None \<Rightarrow> []
                        | Some b \<Rightarrow> [\<lparr> messageId = ''events'', body = b \<rparr>])
               (filter (\<lambda>en. Source en = ''appointment.service''
                              \<and> DetailType en = ''Appointment Confirmed'')
                  entries))"

text \<open>
  One run of the pipeline from a state with empty outboxes: the Intake call, the
  country Lambda on what the country queue received, the Reconciler on what the
  confirmation queue received.
\<close>

definition pipeline ::
  "AppointmentService \<Rightarrow> env \<Rightarrow> CountryISO \<Rightarrow> world \<Rightarrow> json
     \<Rightarrow> (AppointmentResponse \<times> (js_error + unit) \<times> (js_error + unit) \<times> world) option" where
  "pipeline svc e country w requestData =
     (case createAppointment svc e w requestData of
        None \<Rightarrow> None
      | Some (response, w1) \<Rightarrow>
          (case country_handler e country w1 (country_queue country (sns_outbox w1)) of
             None \<Rightarrow> None
           | Some (processed, w2) \<Rightarrow>
               (case handleSQSMessages e w2 (confirmation_queue (bus w2)) of
                  None \<Rightarrow> None
                | Some (reconciled, w3) \<Rightarrow> Some (response, processed, reconciled, w3))))"

section \<open>Notions used to state the claims\<close>

text \<open>
  The confirmations on the bus; the confirmation that a run of the processor publishes
  for an event; and the records the confirmation queue receives for one published
  confirmation.
\<close>

definition confirmed_entries :: "world \<Rightarrow> bus_entry list" where
  "confirmed_entries w = filter (\<lambda>en. DetailType en = ''Appointment Confirmed'') (bus w)"

definition confirmation_of :: "env \<Rightarrow> CountryISO \<Rightarrow> AppointmentCreatedEvent \<Rightarrow> bus_entry" where
  "confirmation_of e country ev =
     \<lparr> Source = ''appointment.service'', DetailType = ''Appointment Confirmed'',
       Detail = JSON_stringify
                  (confirmed_detail_json
                     \<lparr> cf_appointmentId = ce_appointmentId ev, cf_countryISO = country,
                       cf_confirmedAt = now e, cf_status = COMPLETED \<rparr> (now e)),
       Resources = [''appointment:'' @ ce_appointmentId ev] \<rparr>"

definition confirmation_record :: "AppointmentConfirmedEvent \<Rightarrow> string \<Rightarrow> SQSRecord list" where
  "confirmation_record ev ts =
     confirmation_queue
       [\<lparr> Source = ''appointment.service'', DetailType = ''Appointment Confirmed'',
          Detail = JSON_stringify (confirmed_detail_json ev ts),
          Resources = [''appointment:'' @ cf_appointmentId ev] \<rparr>]"

section \<open>Concrete inputs\<close>

text \<open>
  An invocation without faults, the empty state, the service as \<open>initializeServices\<close>
  builds it (no schedule service), and the request of the end-to-end example.
\<close>

definition env_ok :: env where
  "env_ok = \<lparr> get_fault = None, put_fault = None, scan_fault = None, update_fault = None,
              sns_fault = None, events_fault = None, events_failed_entries = 0,
              connect_fault = (\<lambda>k. None), insert_fault = None,
              now = ''2024-03-15T10:30:00.000Z'', uuids = (\<lambda>n. ''uuid-'' @ show_nat n),
              error_topic_arn = None \<rparr>"

definition empty_world :: world where
  "empty_world = \<lparr> appointments = [],
                   regional_pe = \<lparr> rows = [], connected = False \<rparr>,
                   regional_cl = \<lparr> rows = [], connected = False \<rparr>,
                   sns_outbox = [], bus = [], uuid_count = 0 \<rparr>"

definition deployed_service :: AppointmentService where
  "deployed_service = \<lparr> validationService = validateAppointmentRequest, scheduleService = None \<rparr>"

definition example_request :: json where
  "example_request = JObj [(''insuredId'', JStr ''00123''), (''scheduleId'', JNum 100),
                           (''countryISO'', JStr ''PE'')]"

definition example_appointment :: "string \<Rightarrow> int \<Rightarrow> AppointmentStatus \<Rightarrow> Appointment" where
  "example_appointment ident sid st =
     \<lparr> a_id = ident, a_insuredId = ''00456'', a_scheduleId = sid, a_countryISO = PE,
       a_status = st, a_createdAt = ''2024-03-14T09:00:00.000Z'',
       a_updatedAt = ''2024-03-14T09:00:00.000Z'' \<rparr>"

definition example_event :: AppointmentCreatedEvent where
  "example_event = \<lparr> ce_appointmentId = ''uuid-0'', ce_insuredId = ''00123'', ce_scheduleId = 100,
                     ce_countryISO = PE, ce_createdAt = ''2024-03-15T10:30:00.000Z'' \<rparr>"

section \<open>Notions used in the proofs about JSON\<close>

text \<open>
  \<open>follow_ok r\<close>: the text \<open>r\<close> that follows a serialised value is empty or starts with
  a separator; \<open>start_ok s\<close>: a serialised value starts with a character that is
  neither white space nor a closing bracket; \<open>member_text\<close>: the text of one member of
  an object; \<open>value_ok j\<close>: with fuel of at least its length, the parser reads the text
  of \<open>j\<close> back as \<open>j\<close> and stops at what follows.
\<close>

definition follow_ok :: "string \<Rightarrow> bool" where
  "follow_ok r = (r = [] \<or> hd r = CHR '','' \<or> hd r = CHR '']'' \<or> hd r = CHR ''}'')"

definition start_ok :: "string \<Rightarrow> bool" where
  "start_ok s = (s \<noteq> [] \<and> \<not> is_ws (hd s) \<and> hd s \<noteq> CHR '']'' \<and> hd s \<noteq> CHR ''}'')"

definition member_text :: "string \<times> json \<Rightarrow> string" where
  "member_text kv = quote (fst kv) @ '':'' @ JSON_stringify (snd kv)"

definition value_ok :: "json \<Rightarrow> bool" where
  "value_ok j = (\<forall>n r. length (JSON_stringify j) \<le> n \<longrightarrow> follow_ok r
                   \<longrightarrow> parse_value n (JSON_stringify j @ r) = Some (j, r))"

section \<open>Properties\<close>

subsection \<open>JSON.parse reads back what JSON.stringify writes\<close>

lemma of_char_digit_char: "d < 10 \<Longrightarrow> (of_char (digit_char d) :: nat) = 48 + d"
  by (simp add: digit_char_def)

lemma is_digit_digit_char: "d < 10 \<Longrightarrow> is_digit (digit_char d)"
  by (simp add: is_digit_def of_char_digit_char)

lemma digit_val_digit_char: "d < 10 \<Longrightarrow> digit_val (digit_char d) = d"
  by (simp add: digit_val_def of_char_digit_char)

lemma show_nat_digits: "\<forall>c \<in> set (show_nat n). is_digit c"
proof (induction n rule: show_nat.induct)
  case (1 n)
  show ?case
  proof (cases "n < 10")
    case True
    then show ?thesis by (subst show_nat.simps) (simp add: is_digit_digit_char)
  next
    case False
    then show ?thesis using 1 by (subst show_nat.simps) (simp add: is_digit_digit_char)
  qed
qed

lemma show_nat_nonempty: "show_nat n \<noteq> []"
  by (subst show_nat.simps) simp

lemma show_nat_value: "foldl (\<lambda>a c. 10 * a + digit_val c) 0 (show_nat n) = n"
proof (induction n rule: show_nat.induct)
  case (1 n)
  show ?case
  proof (cases "n < 10")
    case True
    then show ?thesis by (subst show_nat.simps) (simp add: digit_val_digit_char)
  next
    case False
    then show ?thesis using 1 by (subst show_nat.simps) (simp add: digit_val_digit_char)
  qed
qed

lemma digit_char_zero: "d < 10 \<Longrightarrow> (digit_char d = CHR ''0'') = (d = 0)"
proof -
  assume d: "d < 10"
  have "(digit_char d = CHR ''0'') = ((of_char (digit_char d) :: nat) = of_char (CHR ''0''))"
    by (simp only: of_char_eq_iff)
  then show ?thesis using d by (simp add: of_char_digit_char)
qed

lemma show_nat_hd: "0 < n \<Longrightarrow> hd (show_nat n) \<noteq> CHR ''0''"
proof (induction n rule: show_nat.induct)
  case (1 n)
  show ?case
  proof (cases "n < 10")
    case True
    then show ?thesis using 1(2) by (subst show_nat.simps) (simp add: digit_char_zero)
  next
    case False
    then have "0 < n div 10" by simp
    then show ?thesis using 1(1) False
      by (subst show_nat.simps) (simp add: show_nat_nonempty)
  qed
qed

lemma show_nat_length: "1 < length (show_nat n) \<Longrightarrow> 0 < n"
  by (cases "n = 0") (simp_all add: show_nat.simps)

lemma follow_ok_simps [simp]:
  "follow_ok []" "follow_ok (CHR '','' # r)" "follow_ok (CHR '']'' # r)" "follow_ok (CHR ''}'' # r)"
  by (simp_all add: follow_ok_def)

lemma follow_not_digit: "follow_ok r \<Longrightarrow> takeWhile is_digit r = [] \<and> dropWhile is_digit r = r"
  by (cases r) (auto simp: follow_ok_def is_digit_def)

lemma parse_nat_lit_show:
  assumes "follow_ok r"
  shows "parse_nat_lit (show_nat n @ r) = Some (n, r)"
proof -
  have tw: "takeWhile is_digit (show_nat n @ r) = show_nat n"
    using show_nat_digits [of n] follow_not_digit [OF assms] by (simp add: takeWhile_append2)
  have dw: "dropWhile is_digit (show_nat n @ r) = r"
    using show_nat_digits [of n] follow_not_digit [OF assms] by (simp add: dropWhile_append2)
  have lead: "\<not> (1 < length (show_nat n) \<and> hd (show_nat n) = CHR ''0'')"
    using show_nat_hd show_nat_length by blast
  have fr: "\<not> (r \<noteq> [] \<and> (hd r = CHR ''.'' \<or> hd r = CHR ''e'' \<or> hd r = CHR ''E''))"
    using assms by (auto simp: follow_ok_def)
  show ?thesis
    unfolding parse_nat_lit_def tw dw Let_def
    using lead fr by (simp add: show_nat_nonempty show_nat_value)
qed

lemma hd_show_nat_digit: "is_digit (hd (show_nat n))"
  using show_nat_digits [of n] show_nat_nonempty [of n] by (cases "show_nat n") auto

lemma parse_number_show:
  assumes "follow_ok r"
  shows "parse_number (show_int i @ r) = Some (JNum i, r)"
proof (cases "i < 0")
  case True
  then show ?thesis
    by (simp add: parse_number_def show_int_def parse_nat_lit_show [OF assms])
next
  case False
  obtain c cs where cs: "show_nat (nat i) = c # cs"
    using show_nat_nonempty [of "nat i"] by (cases "show_nat (nat i)") auto
  have "is_digit c" using hd_show_nat_digit [of "nat i"] cs by simp
  then have nm: "c \<noteq> CHR ''-''" by (auto simp: is_digit_def)
  have "parse_nat_lit (c # cs @ r) = Some (nat i, r)"
    using parse_nat_lit_show [OF assms, of "nat i"] cs by simp
  then show ?thesis using False nm cs
    by (simp add: parse_number_def show_int_def)
qed


lemma hex_val_hex_char: "d < 16 \<Longrightarrow> hex_val (hex_char d) = Some d"
  by (cases "d < 10") (simp_all add: hex_val_def hex_char_def Let_def)

lemma hex4_low:
  assumes "a < 16" "b < 16"
  shows "hex4 (CHR ''0'') (CHR ''0'') (hex_char a) (hex_char b) = Some (a * 16 + b)"
proof -
  have z: "hex_val (CHR ''0'') = Some 0" by (simp add: hex_val_def)
  show ?thesis
    by (simp add: hex4_def z hex_val_hex_char [OF assms(1)] hex_val_hex_char [OF assms(2)])
qed

lemma cons_result_Some [simp]: "cons_result x (Some (xs, r)) = Some (x # xs, r)"
  by (simp add: cons_result_def)

lemma parse_chars_escape:
  "parse_chars (escape_char c @ t) = cons_result c (parse_chars t)"
proof -
  consider (q) "c = CHR 0x22" | (bs) "c = CHR 0x5C" | (b) "c = CHR 0x08" | (f) "c = CHR 0x0C"
    | (n) "c = CHR 0x0A" | (r) "c = CHR 0x0D" | (t) "c = CHR 0x09"
    | (ctl) "c \<noteq> CHR 0x22" "c \<noteq> CHR 0x5C" "c \<noteq> CHR 0x08" "c \<noteq> CHR 0x0C"
        "c \<noteq> CHR 0x0A" "c \<noteq> CHR 0x0D" "c \<noteq> CHR 0x09" "(of_char c :: nat) < 32"
    | (plain) "c \<noteq> CHR 0x22" "c \<noteq> CHR 0x5C" "\<not> (of_char c :: nat) < 32"
    by blast
  then show ?thesis
  proof cases
    case q then show ?thesis by (simp add: escape_char_def simple_escape_def)
  next
    case bs then show ?thesis by (simp add: escape_char_def simple_escape_def)
  next
    case b then show ?thesis by (simp add: escape_char_def simple_escape_def)
  next
    case f then show ?thesis by (simp add: escape_char_def simple_escape_def)
  next
    case n then show ?thesis by (simp add: escape_char_def simple_escape_def)
  next
    case r then show ?thesis by (simp add: escape_char_def simple_escape_def)
  next
    case t then show ?thesis by (simp add: escape_char_def simple_escape_def)
  next
    case ctl
    let ?n = "of_char c :: nat"
    have e: "escape_char c = [CHR 0x5C, CHR ''u'', CHR ''0'', CHR ''0'',
              hex_char (?n div 16), hex_char (?n mod 16)]"
      using ctl by (simp add: escape_char_def)
    have h: "hex4 (CHR ''0'') (CHR ''0'') (hex_char (?n div 16)) (hex_char (?n mod 16)) = Some ?n"
      using hex4_low [of "?n div 16" "?n mod 16"] ctl(8) by simp
    have lt: "?n < 256" by simp
    show ?thesis unfolding e using h lt by (simp del: nat_of_char_less_256)
  next
    case plain
    have "c \<noteq> CHR 0x08 \<and> c \<noteq> CHR 0x0C \<and> c \<noteq> CHR 0x0A \<and> c \<noteq> CHR 0x0D \<and> c \<noteq> CHR 0x09"
      using plain(3) by auto
    then show ?thesis using plain by (simp add: escape_char_def)
  qed
qed

lemma parse_chars_quote:
  "parse_chars (concat (map escape_char s) @ CHR 0x22 # r) = Some (s, r)"
  by (induction s) (simp_all add: parse_chars_escape)

lemma skip_ws_keep: "\<not> is_ws c \<Longrightarrow> skip_ws (c # s) = c # s"
  by (simp add: skip_ws_def)

lemma is_ws_simps [simp]:
  "\<not> is_ws (CHR 0x22)" "\<not> is_ws (CHR ''['')" "\<not> is_ws (CHR '']'')" "\<not> is_ws (CHR ''{'')"
  "\<not> is_ws (CHR ''}'')" "\<not> is_ws (CHR '','')" "\<not> is_ws (CHR '':'')" "\<not> is_ws (CHR ''t'')"
  "\<not> is_ws (CHR ''f'')" "\<not> is_ws (CHR ''n'')" "\<not> is_ws (CHR ''-'')"
  by (simp_all add: is_ws_def)

lemma is_digit_not_ws: "is_digit c \<Longrightarrow> \<not> is_ws c"
  by (auto simp: is_digit_def is_ws_def)

lemma is_digit_not_special:
  "is_digit c \<Longrightarrow> c \<noteq> CHR 0x22 \<and> c \<noteq> CHR ''['' \<and> c \<noteq> CHR '']'' \<and> c \<noteq> CHR ''{'' \<and> c \<noteq> CHR ''}''
     \<and> c \<noteq> CHR ''t'' \<and> c \<noteq> CHR ''f'' \<and> c \<noteq> CHR ''n''"
  by (auto simp: is_digit_def)

lemma start_ok_show_int: "start_ok (show_int i)"
proof (cases "i < 0")
  case True
  then show ?thesis by (simp add: start_ok_def show_int_def)
next
  case False
  then show ?thesis
    using hd_show_nat_digit [of "nat i"] show_nat_nonempty [of "nat i"]
      is_digit_not_ws is_digit_not_special
    by (auto simp: start_ok_def show_int_def)
qed

lemma start_ok_stringify: "start_ok (JSON_stringify j)"
  by (cases j) (simp_all add: start_ok_def quote_def start_ok_show_int [unfolded start_ok_def])

lemma stringify_JObj:
  "JSON_stringify (JObj kvs) = ''{'' @ join '','' (map member_text kvs) @ ''}''"
proof -
  have "member_text = (\<lambda>x. quote (fst x) @ '':'' @ JSON_stringify (snd x))"
    by (rule ext) (simp add: member_text_def)
  then show ?thesis by (simp add: case_prod_beta comp_def)
qed

lemma value_okD:
  "value_ok j \<Longrightarrow> length (JSON_stringify j) \<le> n \<Longrightarrow> follow_ok r
     \<Longrightarrow> parse_value n (JSON_stringify j @ r) = Some (j, r)"
  by (simp add: value_ok_def)

lemma parse_elements_round:
  assumes "\<And>x. x \<in> set xs \<Longrightarrow> value_ok x" "xs \<noteq> []"
    "length (join '','' (map JSON_stringify xs)) < n"
  shows "parse_elements n (join '','' (map JSON_stringify xs) @ CHR '']'' # r) = Some (xs, r)"
  using assms
proof (induction xs arbitrary: n)
  case Nil
  then show ?case by simp
next
  case (Cons x xs)
  obtain k where n: "n = Suc k" using Cons.prems(3) by (cases n) auto
  have vx: "value_ok x" using Cons.prems(1) by simp
  show ?case
  proof (cases xs)
    case Nil
    have "parse_value k (JSON_stringify x @ CHR '']'' # r) = Some (x, CHR '']'' # r)"
      using Cons.prems(3) Nil n by (intro value_okD [OF vx]) simp_all
    then show ?thesis using Nil n by (simp add: skip_ws_keep)
  next
    case (Cons y ys)
    have len: "length (JSON_stringify x) \<le> k" "length (join '','' (map JSON_stringify xs)) < k"
      using Cons.prems(3) Cons n by simp_all
    have pv: "parse_value k (JSON_stringify x @ CHR '','' # join '','' (map JSON_stringify xs) @ CHR '']'' # r)
                = Some (x, CHR '','' # join '','' (map JSON_stringify xs) @ CHR '']'' # r)"
      using len by (intro value_okD [OF vx]) simp_all
    have "\<And>x. x \<in> set xs \<Longrightarrow> value_ok x"
      by (rule Cons.prems(1)) simp
    moreover have "xs \<noteq> []" using Cons by simp
    ultimately have ih:
      "parse_elements k (join '','' (map JSON_stringify xs) @ CHR '']'' # r) = Some (xs, r)"
      using len(2) by (rule Cons.IH)
    show ?thesis using Cons n pv ih by (simp add: skip_ws_keep)
  qed
qed

lemma parse_member_round:
  assumes "value_ok v" "length (member_text (k, v)) \<le> n" "follow_ok t"
  shows "parse_members (Suc n) (member_text (k, v) @ t)
           = (case skip_ws t of
                [] \<Rightarrow> None
              | d # r3 \<Rightarrow>
                  if d = CHR '','' then cons_result (k, v) (parse_members n r3)
                  else if d = CHR ''}'' then Some ([(k, v)], r3)
                  else None)"
proof -
  have mt: "member_text (k, v) @ t
      = CHR 0x22 # (concat (map escape_char k) @ CHR 0x22 # CHR '':'' # JSON_stringify v @ t)"
    by (simp add: member_text_def quote_def)
  have "length (JSON_stringify v) \<le> n" using assms(2) by (simp add: member_text_def)
  then have pv: "parse_value n (JSON_stringify v @ t) = Some (v, t)"
    using assms by (intro value_okD) simp_all
  show ?thesis
    unfolding mt by (simp add: skip_ws_keep parse_chars_quote pv)
qed

lemma parse_members_round:
  assumes "\<And>k v. (k, v) \<in> set kvs \<Longrightarrow> value_ok v" "kvs \<noteq> []"
    "length (join '','' (map member_text kvs)) < n"
  shows "parse_members n (join '','' (map member_text kvs) @ CHR ''}'' # r) = Some (kvs, r)"
  using assms
proof (induction kvs arbitrary: n)
  case Nil
  then show ?case by simp
next
  case (Cons kv kvs)
  obtain m where n: "n = Suc m" using Cons.prems(3) by (cases n) auto
  obtain k v where kv: "kv = (k, v)" by (cases kv)
  have vv: "value_ok v" using Cons.prems(1) [of k v] kv by simp
  show ?case
  proof (cases kvs)
    case Nil
    have "length (member_text (k, v)) \<le> m" using Cons.prems(3) Nil n kv by simp
    then show ?thesis
      using Nil n kv parse_member_round [OF vv, of k m "CHR ''}'' # r"]
      by (simp add: skip_ws_keep)
  next
    case (Cons kv' kvs')
    have len: "length (member_text (k, v)) \<le> m" "length (join '','' (map member_text kvs)) < m"
      using Cons.prems(3) Cons n kv by simp_all
    have "\<And>k v. (k, v) \<in> set kvs \<Longrightarrow> value_ok v"
      using Cons.prems(1) by (meson list.set_intros(2))
    moreover have "kvs \<noteq> []" using Cons by simp
    ultimately have ih:
      "parse_members m (join '','' (map member_text kvs) @ CHR ''}'' # r) = Some (kvs, r)"
      using len(2) by (rule Cons.IH)
    show ?thesis
      using Cons n kv ih
        parse_member_round [OF vv len(1), of "CHR '','' # join '','' (map member_text kvs) @ CHR ''}'' # r"]
      by (simp add: skip_ws_keep)
  qed
qed


lemma value_ok_atoms:
  "value_ok JNull" "value_ok (JBool b)" "value_ok (JNum i)" "value_ok (JStr s)"
proof -
  show "value_ok JNull"
    unfolding value_ok_def
  proof (intro allI impI)
    fix n r assume "length (JSON_stringify JNull) \<le> n"
    then obtain m where "n = Suc m" by (cases n) auto
    then show "parse_value n (JSON_stringify JNull @ r) = Some (JNull, r)"
      by (simp add: skip_ws_keep parse_literal_def)
  qed
  show "value_ok (JBool b)"
    unfolding value_ok_def
  proof (intro allI impI)
    fix n r assume "length (JSON_stringify (JBool b)) \<le> n"
    then obtain m where "n = Suc m" by (cases n; cases b) auto
    then show "parse_value n (JSON_stringify (JBool b) @ r) = Some (JBool b, r)"
      by (cases b) (simp_all add: skip_ws_keep parse_literal_def)
  qed
  show "value_ok (JNum i)"
    unfolding value_ok_def
  proof (intro allI impI)
    fix n r assume len: "length (JSON_stringify (JNum i)) \<le> n" and fo: "follow_ok r"
    have "show_int i \<noteq> []" using start_ok_show_int [of i] by (auto simp: start_ok_def)
    then obtain m where n: "n = Suc m" using len by (cases n) auto
    have so: "start_ok (show_int i @ r)"
      using start_ok_show_int [of i] by (auto simp: start_ok_def)
    obtain c t where ct: "show_int i = c # t"
      using \<open>show_int i \<noteq> []\<close> by (cases "show_int i") auto
    have c: "\<not> is_ws c" "c \<noteq> CHR 0x22" "c \<noteq> CHR ''[''" "c \<noteq> CHR ''{''"
      "c \<noteq> CHR ''t''" "c \<noteq> CHR ''f''" "c \<noteq> CHR ''n''"
    proof -
      have "c = CHR ''-'' \<or> is_digit c"
        using ct hd_show_nat_digit [of "nat i"] by (auto simp: show_int_def split: if_splits)
      then show "\<not> is_ws c" "c \<noteq> CHR 0x22" "c \<noteq> CHR ''[''" "c \<noteq> CHR ''{''"
        "c \<noteq> CHR ''t''" "c \<noteq> CHR ''f''" "c \<noteq> CHR ''n''"
        using is_digit_not_ws is_digit_not_special by auto
    qed
    have pn: "parse_number (c # t @ r) = Some (JNum i, r)"
      using parse_number_show [OF fo, of i] ct by simp
    show "parse_value n (JSON_stringify (JNum i) @ r) = Some (JNum i, r)"
      using n ct c pn by (simp add: skip_ws_keep)
  qed
  show "value_ok (JStr s)"
    unfolding value_ok_def
  proof (intro allI impI)
    fix n r assume "length (JSON_stringify (JStr s)) \<le> n"
    then obtain m where "n = Suc m" by (cases n) (auto simp: quote_def)
    then show "parse_value n (JSON_stringify (JStr s) @ r) = Some (JStr s, r)"
      by (simp add: quote_def skip_ws_keep parse_chars_quote)
  qed
qed

lemma value_ok_JArr:
  assumes "\<And>x. x \<in> set xs \<Longrightarrow> value_ok x"
  shows "value_ok (JArr xs)"
  unfolding value_ok_def
proof (intro allI impI)
  fix n r assume len: "length (JSON_stringify (JArr xs)) \<le> n"
  then obtain m where n: "n = Suc m" by (cases n) auto
  show "parse_value n (JSON_stringify (JArr xs) @ r) = Some (JArr xs, r)"
  proof (cases xs)
    case Nil
    then show ?thesis using n by (simp add: skip_ws_keep)
  next
    case (Cons x xs')
    let ?body = "join '','' (map JSON_stringify xs)"
    have "start_ok (JSON_stringify x)" by (rule start_ok_stringify)
    then obtain c t where ct: "JSON_stringify x = c # t" "\<not> is_ws c" "c \<noteq> CHR '']''"
      by (cases "JSON_stringify x") (auto simp: start_ok_def)
    have "\<exists>t'. ?body @ CHR '']'' # r = c # t'"
      using Cons ct(1) by (cases xs') simp_all
    then obtain t' where bt: "?body @ CHR '']'' # r = c # t'" by blast
    have sk: "skip_ws (?body @ CHR '']'' # r) = c # t'"
      using bt ct(2) by (simp add: skip_ws_keep)
    have "length ?body < m" using len n by simp
    then have pe: "parse_elements m (?body @ CHR '']'' # r) = Some (xs, r)"
      using assms Cons by (intro parse_elements_round) simp_all
    show ?thesis using n sk ct(3) pe by (simp add: skip_ws_keep)
  qed
qed

lemma value_ok_JObj:
  assumes "\<And>k v. (k, v) \<in> set kvs \<Longrightarrow> value_ok v"
  shows "value_ok (JObj kvs)"
  unfolding value_ok_def
proof (intro allI impI)
  fix n r assume len: "length (JSON_stringify (JObj kvs)) \<le> n"
  then obtain m where n: "n = Suc m" by (cases n) (auto simp: stringify_JObj simp del: JSON_stringify.simps)
  show "parse_value n (JSON_stringify (JObj kvs) @ r) = Some (JObj kvs, r)"
  proof (cases kvs)
    case Nil
    then show ?thesis using n by (simp add: skip_ws_keep)
  next
    case (Cons kv kvs')
    let ?body = "join '','' (map member_text kvs)"
    have "\<exists>t'. ?body @ CHR ''}'' # r = CHR 0x22 # t'"
      using Cons by (cases kvs') (simp_all add: member_text_def quote_def)
    then obtain t' where bt: "?body @ CHR ''}'' # r = CHR 0x22 # t'" by blast
    have sk: "skip_ws (?body @ CHR ''}'' # r) = CHR 0x22 # t'"
      using bt by (simp add: skip_ws_keep)
    have "length ?body < m" using len n by (simp add: stringify_JObj del: JSON_stringify.simps)
    then have pe: "parse_members m (?body @ CHR ''}'' # r) = Some (kvs, r)"
      using assms Cons by (intro parse_members_round) simp_all
    show ?thesis using n sk pe by (simp add: stringify_JObj skip_ws_keep del: JSON_stringify.simps)
  qed
qed

lemma value_ok_all: "value_ok j"
proof (induction j)
  case (JArr xs)
  then show ?case by (intro value_ok_JArr)
next
  case (JObj kvs)
  show ?case
  proof (rule value_ok_JObj)
    fix k v assume "(k, v) \<in> set kvs"
    then show "value_ok v" using JObj [of "(k, v)" v] by simp
  qed
qed (simp_all add: value_ok_atoms)

lemma parse_json_stringify: "parse_json (JSON_stringify j) = Some j"
proof -
  have "parse_value (Suc (length (JSON_stringify j))) (JSON_stringify j @ []) = Some (j, [])"
    by (intro value_okD [OF value_ok_all]) simp_all
  then show ?thesis by (simp add: parse_json_def skip_ws_def)
qed

lemma JSON_parse_stringify: "JSON_parse (JSON_stringify j) = Inr j"
  by (simp add: JSON_parse_def parse_json_stringify)

subsection \<open>The state machine and the schedule metadata (C2, C10)\<close>

text \<open>
  C2. The status-transition check is defined on every pair of statuses; it accepts
  exactly PENDING->PROCESSING, PENDING->FAILED, PROCESSING->COMPLETED and
  PROCESSING->FAILED, and rejects every other pair with a validation error, so that
  nothing leaves COMPLETED or FAILED (COMPLETED->PROCESSING is rejected).
\<close>

theorem C2_transition_table:
  "(validateStatusTransition c n = Inr ()) =
     ((c, n) \<in> {(PENDING, PROCESSING), (PENDING, FAILED),
                (PROCESSING, COMPLETED), (PROCESSING, FAILED)})
   \<and> ((\<exists>m. validateStatusTransition c n = Inl (ValidationError m)) =
     ((c, n) \<notin> {(PENDING, PROCESSING), (PENDING, FAILED),
                (PROCESSING, COMPLETED), (PROCESSING, FAILED)}))
   \<and> (\<exists>m. validateStatusTransition COMPLETED PROCESSING = Inl (ValidationError m))
   \<and> (\<exists>m. validateStatusTransition COMPLETED n = Inl (ValidationError m))
   \<and> (\<exists>m. validateStatusTransition FAILED n = Inl (ValidationError m))"
  by (cases c; cases n) (simp_all add: validateStatusTransition_def)

text \<open>
  The division of doubles: below \<open>2\<^sup>5\<^sup>3\<close> the floor of the rounded quotient is the floor
  of the quotient. The double nearest to the quotient lies below the next integer,
  because the quotient is at least \<open>1 / b\<close> away from it and the doubles there are less
  than \<open>2 / b\<close> apart.
\<close>

lemma ilog2_less: "n < 2 ^ k \<Longrightarrow> 0 < k \<Longrightarrow> ilog2 n < k"
proof (induction n arbitrary: k rule: ilog2.induct)
  case (1 n)
  show ?case
  proof (cases "n < 2")
    case True
    then show ?thesis using 1(3) by (simp add: ilog2.simps [of n])
  next
    case False
    obtain j where k: "k = Suc j" using 1(3) by (cases k) simp_all
    have nk: "n < 2 * 2 ^ j" using 1(2) unfolding k by simp
    have j0: "0 < j"
    proof (cases j)
      case 0
      then show ?thesis using nk False by simp
    next
      case (Suc i)
      then show ?thesis by simp
    qed
    have "n div 2 < 2 ^ j" using nk by linarith
    from 1(1) [OF False this j0] show ?thesis
      using False unfolding k by (simp add: ilog2.simps [of n])
  qed
qed

lemma ilog2_upper: "n < 2 * 2 ^ ilog2 n"
proof (induction n rule: ilog2.induct)
  case (1 n)
  show ?case
  proof (cases "n < 2")
    case True
    then show ?thesis by (simp add: ilog2.simps [of n])
  next
    case False
    from 1 [OF False] have "n div 2 < 2 * 2 ^ ilog2 (n div 2)" .
    then have "n < 2 * (2 * 2 ^ ilog2 (n div 2))" by linarith
    then show ?thesis using False by (simp add: ilog2.simps [of n])
  qed
qed

lemma round_even_cases:
  "round_even n d = n div d \<or> (round_even n d = n div d + 1 \<and> d \<le> 2 * (n mod d))"
  unfolding round_even_def Let_def by (simp only: split: if_splits) linarith

lemma round_scaled:
  fixes a b N :: int
  assumes a: "0 \<le> a" and b: "0 < b" and N: "0 < N" and bN: "b < 2 * N"
  shows "round_even (a * N) b div N = a div b"
proof -
  define q where "q = a div b"
  define r where "r = a mod b"
  define t where "t = (r * N) div b"
  define u where "u = (r * N) mod b"
  have aq: "a = q * b + r" by (simp add: q_def r_def)
  have r0: "0 \<le> r" and rb: "r < b" using b by (simp_all add: r_def)
  have u0: "0 \<le> u" and ub: "u < b" using b by (simp_all add: u_def)
  have rN: "r * N = t * b + u" by (simp add: t_def u_def)
  have t0: "0 \<le> t" using r0 N b by (simp add: t_def pos_imp_zdiv_nonneg_iff)
  have "r * N < b * N" using rb N by simp
  then have "t * b + u < N * b" using rN by (simp add: mult.commute)
  then have "t * b < N * b" using u0 by linarith
  then have tN: "t < N" using b by simp
  have aN: "a * N = (q * N + t) * b + u"
    using rN by (simp add: aq algebra_simps)
  have dv: "(a * N) div b = q * N + t"
    unfolding aN using u0 ub b by simp
  have md: "(a * N) mod b = u"
    unfolding aN using u0 ub b by simp
  have up: "round_even (a * N) b \<le> q * N + (N - 1)"
  proof (cases "t + 1 < N")
    case True
    then show ?thesis using round_even_cases [of "a * N" b] dv by linarith
  next
    case False
    then have tN1: "t = N - 1" using tN by linarith
    have "r * N \<le> (b - 1) * N" using rb N by simp
    then have "(N - 1) * b + u \<le> (b - 1) * N" using rN tN1 by simp
    then have "u \<le> b - N" by (simp add: algebra_simps)
    then have "2 * u < b" using bN by linarith
    then have "round_even (a * N) b = q * N + t"
      using round_even_cases [of "a * N" b] dv md by linarith
    then show ?thesis using tN1 by simp
  qed
  have lo: "q * N + t \<le> round_even (a * N) b"
    using round_even_cases [of "a * N" b] dv by linarith
  define v where "v = round_even (a * N) b - q * N"
  have v: "0 \<le> v" "v < N" using lo up t0 by (simp_all add: v_def)
  have "round_even (a * N) b = v + q * N" by (simp add: v_def)
  then have "round_even (a * N) b div N = (v + q * N) div N" by simp
  also have "\<dots> = q" using v N by simp
  finally show ?thesis by (simp add: q_def)
qed

lemma quotient_exponent_le:
  "quotient_exponent a b \<le> int (ilog2 a) - int (ilog2 b)"
  by (simp add: quotient_exponent_def Let_def)

lemma round_even_one: "round_even n 1 = n"
  by (simp add: round_even_def)

lemma round_even_nonneg: "0 \<le> n \<Longrightarrow> 0 < d \<Longrightarrow> 0 \<le> round_even n d"
  using round_even_cases [of n d] pos_imp_zdiv_nonneg_iff [of d n] by linarith

lemma floor_div_nonneg:
  assumes "0 \<le> a" and "0 < b"
  shows "0 \<le> floor_div a b"
proof (cases "a = 0")
  case True
  then show ?thesis by (simp add: floor_div_def)
next
  case False
  then have a: "0 < a" using assms by simp
  define s where "s = quotient_exponent a b - 52"
  have f: "floor_div a b =
      (if s < 0 then round_even (a * 2 ^ nat (- s)) b div 2 ^ nat (- s)
       else round_even a (b * 2 ^ nat s) * 2 ^ nat s)"
    using a by (simp add: floor_div_def s_def Let_def)
  have r1: "0 \<le> round_even (a * 2 ^ nat (- s)) b"
    using a assms by (intro round_even_nonneg) simp_all
  have r2: "0 \<le> round_even a (b * 2 ^ nat s)"
    using a assms by (intro round_even_nonneg) simp_all
  show ?thesis
    unfolding f using r1 r2 by (simp add: pos_imp_zdiv_nonneg_iff)
qed

lemma floor_div_exact:
  assumes a0: "0 \<le> a" and a53: "a < 2 ^ 53" and b: "0 < b"
  shows "floor_div a b = a div b"
proof (cases "a = 0")
  case True
  then show ?thesis by (simp add: floor_div_def)
next
  case False
  then have a: "0 < a" using a0 by simp
  define s where "s = quotient_exponent a b - 52"
  have f: "floor_div a b =
      (if s < 0 then round_even (a * 2 ^ nat (- s)) b div 2 ^ nat (- s)
       else round_even a (b * 2 ^ nat s) * 2 ^ nat s)"
    using a by (simp add: floor_div_def s_def Let_def)
  have "ilog2 a < 53" using ilog2_less [OF a53] by simp
  then have sl: "s \<le> - int (ilog2 b)"
    using quotient_exponent_le [of a b] by (simp add: s_def)
  show ?thesis
  proof (cases "s < 0")
    case True
    have "ilog2 b \<le> nat (- s)" using sl by linarith
    then have "(2::int) ^ ilog2 b \<le> 2 ^ nat (- s)"
      by (intro power_increasing) simp_all
    then have bN: "b < 2 * 2 ^ nat (- s)" using ilog2_upper [of b] by linarith
    show ?thesis
      unfolding f using True round_scaled [OF a0 b _ bN] by simp
  next
    case False
    then have s0: "s = 0" and l0: "ilog2 b = 0" using sl by linarith+
    have "b < 2" using ilog2_upper [of b] l0 by simp
    then have "b = 1" using b by simp
    then show ?thesis unfolding f using s0 by (simp add: round_even_one)
  qed
qed

text \<open>
  C10, as stated for every positive integer, fails for large schedule ids: \<open>2\<^sup>6\<^sup>3\<close> is a
  double, the double nearest to \<open>2\<^sup>6\<^sup>3 / 1000\<close> is 9223372036854776, and that is the
  centerId, one more than floor(scheduleId/1000).
\<close>

theorem C10_large_id_counterexample:
  "(0::int) < 2 ^ 63 \<and> is_double (2 ^ 63)
   \<and> centerId (getScheduleInformation ''2024-03-15T10:30:00.000Z'' (2 ^ 63)) = 9223372036854776
   \<and> (2 ^ 63 :: int) div 1000 = 9223372036854775
   \<and> centerId (getScheduleInformation ''2024-03-15T10:30:00.000Z'' (2 ^ 63))
       \<noteq> (if (2 ^ 63 :: int) div 1000 = 0 then 1 else 2 ^ 63 div 1000)"
  by code_simp

text \<open>
  C10. For every positive integer scheduleId the derived specialtyId is
  floor((scheduleId mod 1000)/100), or 1 when that is 0; medicId is
  floor((scheduleId mod 100)/10), or 1 when that is 0; and all three ids are at least 1.
  For every positive integer scheduleId below \<open>2\<^sup>5\<^sup>3\<close> the derived centerId is
  floor(scheduleId/1000), or 1 when that is 0.
\<close>

theorem C10_schedule_ids:
  assumes "0 < scheduleId"
  shows "(scheduleId < 2 ^ 53 \<longrightarrow>
            centerId (getScheduleInformation ts scheduleId) =
              (if scheduleId div 1000 = 0 then 1 else scheduleId div 1000))
       \<and> specialtyId (getScheduleInformation ts scheduleId) =
           (if (scheduleId mod 1000) div 100 = 0 then 1 else (scheduleId mod 1000) div 100)
       \<and> medicId (getScheduleInformation ts scheduleId) =
           (if (scheduleId mod 100) div 10 = 0 then 1 else (scheduleId mod 100) div 10)
       \<and> 1 \<le> centerId (getScheduleInformation ts scheduleId)
       \<and> 1 \<le> specialtyId (getScheduleInformation ts scheduleId)
       \<and> 1 \<le> medicId (getScheduleInformation ts scheduleId)"
proof -
  have r1: "js_rem scheduleId 1000 = scheduleId mod 1000"
    using assms by (simp add: js_rem_def)
  have r2: "js_rem scheduleId 100 = scheduleId mod 100"
    using assms by (simp add: js_rem_def)
  have m1: "0 \<le> scheduleId mod 1000" "scheduleId mod 1000 < 2 ^ 53"
    using pos_mod_bound [of 1000 scheduleId] by simp_all
  have m2: "0 \<le> scheduleId mod 100" "scheduleId mod 100 < 2 ^ 53"
    using pos_mod_bound [of 100 scheduleId] by simp_all
  have s: "floor_div (scheduleId mod 1000) 100 = (scheduleId mod 1000) div 100"
    by (rule floor_div_exact [OF m1]) simp
  have m: "floor_div (scheduleId mod 100) 10 = (scheduleId mod 100) div 10"
    by (rule floor_div_exact [OF m2]) simp
  have c: "floor_div scheduleId 1000 = scheduleId div 1000" if "scheduleId < 2 ^ 53"
    using assms that by (intro floor_div_exact) simp_all
  have c0: "0 \<le> floor_div scheduleId 1000"
    using assms by (intro floor_div_nonneg) simp_all
  have s0: "0 \<le> (scheduleId mod 1000) div 100"
    by (simp add: pos_imp_zdiv_nonneg_iff)
  have m0: "0 \<le> (scheduleId mod 100) div 10"
    by (simp add: pos_imp_zdiv_nonneg_iff)
  have ge: "1 \<le> or_num x 1" if "0 \<le> x" for x
    using that by (simp add: or_num_def)
  have eq: "or_num x 1 = (if x = 0 then 1 else x)" for x
    by (simp add: or_num_def)
  have g: "getScheduleInformation ts scheduleId =
      \<lparr> centerId = or_num (floor_div scheduleId 1000) 1,
        specialtyId = or_num ((scheduleId mod 1000) div 100) 1,
        medicId = or_num ((scheduleId mod 100) div 10) 1,
        appointmentDate = ts \<rparr>"
    by (simp only: getScheduleInformation_def r1 r2 s m)
  have p1: "scheduleId < 2 ^ 53 \<longrightarrow>
            centerId (getScheduleInformation ts scheduleId) =
              (if scheduleId div 1000 = 0 then 1 else scheduleId div 1000)"
  proof
    assume "scheduleId < 2 ^ 53"
    from c [OF this] show "centerId (getScheduleInformation ts scheduleId) =
              (if scheduleId div 1000 = 0 then 1 else scheduleId div 1000)"
      unfolding g by (simp only: ScheduleInfo.simps eq)
  qed
  have p2: "specialtyId (getScheduleInformation ts scheduleId) =
           (if (scheduleId mod 1000) div 100 = 0 then 1 else (scheduleId mod 1000) div 100)"
    unfolding g by (simp only: ScheduleInfo.simps eq)
  have p3: "medicId (getScheduleInformation ts scheduleId) =
           (if (scheduleId mod 100) div 10 = 0 then 1 else (scheduleId mod 100) div 10)"
    unfolding g by (simp only: ScheduleInfo.simps eq)
  have p4: "1 \<le> centerId (getScheduleInformation ts scheduleId)"
    unfolding g using ge [OF c0] by (simp only: ScheduleInfo.simps)
  have p5: "1 \<le> specialtyId (getScheduleInformation ts scheduleId)"
    unfolding g using ge [OF s0] by (simp only: ScheduleInfo.simps)
  have p6: "1 \<le> medicId (getScheduleInformation ts scheduleId)"
    unfolding g using ge [OF m0] by (simp only: ScheduleInfo.simps)
  from p1 p2 p3 p4 p5 p6 show ?thesis by blast
qed

theorem C10_schedule_ids_witness:
  "(0::int) < 12345 \<and> (12345::int) < 2 ^ 53
   \<and> centerId (getScheduleInformation ''2024-03-15T10:30:00.000Z'' 12345) = 12
   \<and> specialtyId (getScheduleInformation ''2024-03-15T10:30:00.000Z'' 12345) = 3
   \<and> medicId (getScheduleInformation ''2024-03-15T10:30:00.000Z'' 12345) = 4"
  using C10_schedule_ids [of 12345 "''2024-03-15T10:30:00.000Z''"] by simp

subsection \<open>The parser of the country queues (C8)\<close>

lemma parse_created_bare:
  "parseAppointmentEvent_body (JSON_stringify (created_data_json ev)) =
     Inr \<lparr> raw_appointmentId = Some (JStr (ce_appointmentId ev)),
           raw_insuredId = Some (JStr (ce_insuredId ev)),
           raw_scheduleId = Some (JNum (ce_scheduleId ev)),
           raw_countryISO = Some (JStr (CountryISO_str (ce_countryISO ev))),
           raw_createdAt = Some (JStr (ce_createdAt ev)) \<rparr>"
  unfolding parseAppointmentEvent_body_def JSON_parse_stringify
  by (simp add: created_data_json_def get_prop_def)

lemma parse_created_wrapped:
  "parseAppointmentEvent_body
     (JSON_stringify (JObj [(''Message'', JStr (JSON_stringify (created_data_json ev)))])) =
     Inr \<lparr> raw_appointmentId = Some (JStr (ce_appointmentId ev)),
           raw_insuredId = Some (JStr (ce_insuredId ev)),
           raw_scheduleId = Some (JNum (ce_scheduleId ev)),
           raw_countryISO = Some (JStr (CountryISO_str (ce_countryISO ev))),
           raw_createdAt = Some (JStr (ce_createdAt ev)) \<rparr>"
proof -
  have ne: "JSON_stringify (created_data_json ev) \<noteq> []"
    by (simp add: created_data_json_def)
  have m: "get_prop (JObj [(''Message'', JStr (JSON_stringify (created_data_json ev)))]) ''Message''
             = Inr (Some (JStr (JSON_stringify (created_data_json ev))))"
    by (simp add: get_prop_def)
  have inner: "JSON_parse (js_String_opt (Some (JStr (JSON_stringify (created_data_json ev)))))
                 = Inr (created_data_json ev)"
    by (simp add: js_String_opt_def JSON_parse_stringify)
  have t: "js_truthy (Some (JStr (JSON_stringify (created_data_json ev))))"
    using ne by simp
  have rest: "parseAppointmentEvent_body (JSON_stringify (created_data_json ev)) = 
     (case get_prop (created_data_json ev) ''data'' of
                       Inl x \<Rightarrow> Inl x
                     | Inr d \<Rightarrow>
                         (let dat = (case d of
                                       None \<Rightarrow> created_data_json ev
                                     | Some dv \<Rightarrow> if js_truthy d then dv else created_data_json ev)
                          in case (get_prop dat ''appointmentId'', get_prop dat ''insuredId'',
                                   get_prop dat ''scheduleId'', get_prop dat ''countryISO'',
                                   get_prop dat ''createdAt'') of
                               (Inr a, Inr i, Inr s, Inr c, Inr t) \<Rightarrow>
                                 Inr \<lparr> raw_appointmentId = a, raw_insuredId = i, raw_scheduleId = s,
                                       raw_countryISO = c, raw_createdAt = t \<rparr>
                             | (Inl x, rest) \<Rightarrow> Inl x
                             | (Inr a, Inl x, rest) \<Rightarrow> Inl x
                             | (Inr a, Inr i, Inl x, rest) \<Rightarrow> Inl x
                             | (Inr a, Inr i, Inr s, Inl x, rest) \<Rightarrow> Inl x
                             | (Inr a, Inr i, Inr s, Inr c, Inl x) \<Rightarrow> Inl x))"
    unfolding parseAppointmentEvent_body_def JSON_parse_stringify
    by (simp add: created_data_json_def get_prop_def)
  show ?thesis
    unfolding parse_created_bare [symmetric] rest
    unfolding parseAppointmentEvent_body_def JSON_parse_stringify
    by (simp only: m t inner sum.case if_True)
qed

text \<open>
  C8. For every CreatedEvent, the parser of the country queue returns the same parsed
  event for the bare JSON serialisation of the event and for that serialisation wrapped
  in one envelope, an object whose \<open>Message\<close> string holds it; the parsed event has the
  five fields of the event.
\<close>

theorem C8_envelope_transparent:
  "parseAppointmentEvent
     (JSON_stringify (JObj [(''Message'', JStr (JSON_stringify (created_data_json ev)))]))
   = parseAppointmentEvent (JSON_stringify (created_data_json ev))
   \<and> parseAppointmentEvent (JSON_stringify (created_data_json ev)) =
     Inr \<lparr> raw_appointmentId = Some (JStr (ce_appointmentId ev)),
           raw_insuredId = Some (JStr (ce_insuredId ev)),
           raw_scheduleId = Some (JNum (ce_scheduleId ev)),
           raw_countryISO = Some (JStr (CountryISO_str (ce_countryISO ev))),
           raw_createdAt = Some (JStr (ce_createdAt ev)) \<rparr>"
  unfolding parseAppointmentEvent_def parse_created_bare parse_created_wrapped
  by simp

text \<open>
  The envelope may have other members around \<open>Message\<close>, as the notification envelope
  has, provided none after it has the same name.
\<close>

lemma map_of_rev_member:
  "k \<notin> set (map fst post) \<Longrightarrow> map_of (rev (pre @ (k, v) # post)) k = Some v"
  by (simp add: map_add_Some_iff map_of_eq_None_iff)

lemma parse_created_any_envelope:
  assumes "''Message'' \<notin> set (map fst post)"
  shows "parseAppointmentEvent
           (JSON_stringify (JObj (pre @ (''Message'', JStr (JSON_stringify (created_data_json ev))) # post)))
         = parseAppointmentEvent (JSON_stringify (created_data_json ev))"
proof -
  let ?s = "JSON_stringify (created_data_json ev)"
  let ?env = "JObj (pre @ (''Message'', JStr ?s) # post)"
  have ne: "?s \<noteq> []" by (simp add: created_data_json_def)
  have m: "get_prop ?env ''Message'' = Inr (Some (JStr ?s))"
    using map_of_rev_member [OF assms] by (simp add: get_prop_def)
  have t: "js_truthy (Some (JStr ?s))" using ne by simp
  have inner: "JSON_parse (js_String_opt (Some (JStr ?s))) = Inr (created_data_json ev)"
    by (simp add: js_String_opt_def JSON_parse_stringify)
  have nm: "get_prop (created_data_json ev) ''Message'' = Inr None"
    by (simp add: created_data_json_def get_prop_def)
  have f: "\<not> js_truthy None" by simp
  have lhs: "parseAppointmentEvent_body (JSON_stringify ?env)
      = (case (Inr (created_data_json ev) :: js_error + json) of
           Inl x \<Rightarrow> Inl x
         | Inr eventData \<Rightarrow>
             (case get_prop eventData ''data'' of
                Inl x \<Rightarrow> Inl x
              | Inr d \<Rightarrow>
                  (let dat = (case d of
                                None \<Rightarrow> eventData
                              | Some dv \<Rightarrow> if js_truthy d then dv else eventData)
                   in case (get_prop dat ''appointmentId'', get_prop dat ''insuredId'',
                            get_prop dat ''scheduleId'', get_prop dat ''countryISO'',
                            get_prop dat ''createdAt'') of
                        (Inr a, Inr i, Inr s, Inr c, Inr t) \<Rightarrow>
                          Inr \<lparr> raw_appointmentId = a, raw_insuredId = i, raw_scheduleId = s,
                                raw_countryISO = c, raw_createdAt = t \<rparr>
                      | (Inl x, rest) \<Rightarrow> Inl x
                      | (Inr a, Inl x, rest) \<Rightarrow> Inl x
                      | (Inr a, Inr i, Inl x, rest) \<Rightarrow> Inl x
                      | (Inr a, Inr i, Inr s, Inl x, rest) \<Rightarrow> Inl x
                      | (Inr a, Inr i, Inr s, Inr c, Inl x) \<Rightarrow> Inl x)))"
    unfolding parseAppointmentEvent_body_def [of "JSON_stringify ?env"] JSON_parse_stringify
    by (simp only: m t inner sum.case if_True)
  have rhs: "parseAppointmentEvent_body ?s
      = (case (Inr (created_data_json ev) :: js_error + json) of
           Inl x \<Rightarrow> Inl x
         | Inr eventData \<Rightarrow>
             (case get_prop eventData ''data'' of
                Inl x \<Rightarrow> Inl x
              | Inr d \<Rightarrow>
                  (let dat = (case d of
                                None \<Rightarrow> eventData
                              | Some dv \<Rightarrow> if js_truthy d then dv else eventData)
                   in case (get_prop dat ''appointmentId'', get_prop dat ''insuredId'',
                            get_prop dat ''scheduleId'', get_prop dat ''countryISO'',
                            get_prop dat ''createdAt'') of
                        (Inr a, Inr i, Inr s, Inr c, Inr t) \<Rightarrow>
                          Inr \<lparr> raw_appointmentId = a, raw_insuredId = i, raw_scheduleId = s,
                                raw_countryISO = c, raw_createdAt = t \<rparr>
                      | (Inl x, rest) \<Rightarrow> Inl x
                      | (Inr a, Inl x, rest) \<Rightarrow> Inl x
                      | (Inr a, Inr i, Inl x, rest) \<Rightarrow> Inl x
                      | (Inr a, Inr i, Inr s, Inl x, rest) \<Rightarrow> Inl x
                      | (Inr a, Inr i, Inr s, Inr c, Inl x) \<Rightarrow> Inl x)))"
    unfolding parseAppointmentEvent_body_def [of ?s] JSON_parse_stringify
    by (simp only: nm f sum.case if_False)
  show ?thesis by (simp only: parseAppointmentEvent_def lhs rhs)
qed

subsection \<open>The Reconciler (C9, C3)\<close>

lemma handleSQSMessages_single:
  "handleSQSMessages e w [r] =
     (case handleSQSRecord e w r of
        None \<Rightarrow> None
      | Some (res, w1) \<Rightarrow> Some (res, w1))"
  by (auto split: option.splits sum.splits prod.splits)

lemma handleSQSRecord_direct:
  "handleSQSRecord e w \<lparr> messageId = m, body = JSON_stringify (confirmed_detail_json ev ts) \<rparr>
     = Some (updateAppointmentStatus e w (cf_appointmentId ev) COMPLETED)"
  unfolding handleSQSRecord_def
  by (simp add: JSON_parse_stringify confirmed_detail_json_def get_prop_def
           del: JSON_stringify.simps)

lemma bus_envelope_confirmed:
  "bus_envelope \<lparr> Source = src, DetailType = dt,
                  Detail = JSON_stringify (confirmed_detail_json ev ts), Resources = rs \<rparr>
     = Some (JSON_stringify (JObj [(''version'', JStr ''0''),
                                   (''detail-type'', JStr dt),
                                   (''source'', JStr src),
                                   (''resources'', JArr (map JStr rs)),
                                   (''detail'', confirmed_detail_json ev ts)]))"
  unfolding bus_envelope_def
  by (simp add: parse_json_stringify del: JSON_stringify.simps)

lemma handleSQSRecord_enveloped:
  "handleSQSRecord e w
     \<lparr> messageId = m,
       body = JSON_stringify (JObj [(''version'', JStr ''0''),
                                   (''detail-type'', JStr dt),
                                   (''source'', JStr src),
                                   (''resources'', JArr (map JStr rs)),
                                   (''detail'', confirmed_detail_json ev ts)]) \<rparr>
     = Some (updateAppointmentStatus e w (cf_appointmentId ev) COMPLETED)"
  unfolding handleSQSRecord_def
  by (simp add: JSON_parse_stringify confirmed_detail_json_def get_prop_def
           del: JSON_stringify.simps)

text \<open>The same for an event with any other members before \<open>detail\<close>.\<close>

lemma handleSQSRecord_any_envelope:
  "handleSQSRecord e w
     \<lparr> messageId = m,
       body = JSON_stringify (JObj (hdr @ [(''detail'', confirmed_detail_json ev ts)])) \<rparr>
     = Some (updateAppointmentStatus e w (cf_appointmentId ev) COMPLETED)"
proof -
  have d: "get_prop (JObj (hdr @ [(''detail'', confirmed_detail_json ev ts)])) ''detail''
             = Inr (Some (confirmed_detail_json ev ts))"
    by (simp add: get_prop_def)
  have a: "get_prop (confirmed_detail_json ev ts) ''appointmentId'' = Inr (Some (JStr (cf_appointmentId ev)))"
    by (simp add: confirmed_detail_json_def get_prop_def)
  have t: "js_truthy (Some (confirmed_detail_json ev ts))"
    by (simp add: confirmed_detail_json_def)
  show ?thesis
    by (simp add: handleSQSRecord_def JSON_parse_stringify d a t del: JSON_stringify.simps)
qed

text \<open>
  C9. The Reconciler ignores the status carried by a ConfirmedEvent: for two events that
  differ only in their status, delivered through the confirmation queue or as a bare
  message, it does the same thing, namely the update of the appointment to COMPLETED.
\<close>

theorem C9_status_ignored:
  "handleSQSMessages e w (confirmation_record (ev\<lparr>cf_status := s1\<rparr>) ts)
     = handleSQSMessages e w (confirmation_record (ev\<lparr>cf_status := s2\<rparr>) ts)
   \<and> handleSQSMessages e w (confirmation_record (ev\<lparr>cf_status := s1\<rparr>) ts)
     = Some (updateAppointmentStatus e w (cf_appointmentId ev) COMPLETED)
   \<and> handleSQSMessages e w
       [\<lparr> messageId = m, body = JSON_stringify (confirmed_detail_json (ev\<lparr>cf_status := s1\<rparr>) ts) \<rparr>]
     = handleSQSMessages e w
       [\<lparr> messageId = m, body = JSON_stringify (confirmed_detail_json (ev\<lparr>cf_status := s2\<rparr>) ts) \<rparr>]
   \<and> handleSQSMessages e w
       [\<lparr> messageId = m, body = JSON_stringify (confirmed_detail_json (ev\<lparr>cf_status := s1\<rparr>) ts) \<rparr>]
     = Some (updateAppointmentStatus e w (cf_appointmentId ev) COMPLETED)"
proof -
  have q: "confirmation_record (ev\<lparr>cf_status := s\<rparr>) ts =
             [\<lparr> messageId = ''events'',
                body = JSON_stringify (JObj [(''version'', JStr ''0''),
                                   (''detail-type'', JStr ''Appointment Confirmed''),
                                   (''source'', JStr ''appointment.service''),
                                   (''resources'', JArr (map JStr [''appointment:'' @ cf_appointmentId ev])),
                                   (''detail'', confirmed_detail_json (ev\<lparr>cf_status := s\<rparr>) ts)]) \<rparr>]" for s
    unfolding confirmation_record_def confirmation_queue_def
    by (simp add: bus_envelope_confirmed del: JSON_stringify.simps)
  have a: "handleSQSMessages e w (confirmation_record (ev\<lparr>cf_status := s\<rparr>) ts)
             = Some (updateAppointmentStatus e w (cf_appointmentId ev) COMPLETED)" for s
    unfolding q handleSQSMessages_single
    using handleSQSRecord_enveloped [of e w "''events''" "''Appointment Confirmed''"
            "''appointment.service''" "[''appointment:'' @ cf_appointmentId ev]" "ev\<lparr>cf_status := s\<rparr>" ts]
    by (simp del: JSON_stringify.simps split: prod.splits)
  have b: "handleSQSMessages e w
       [\<lparr> messageId = m, body = JSON_stringify (confirmed_detail_json (ev\<lparr>cf_status := s\<rparr>) ts) \<rparr>]
     = Some (updateAppointmentStatus e w (cf_appointmentId ev) COMPLETED)" for s
    unfolding handleSQSMessages_single
    using handleSQSRecord_direct [of e w m "ev\<lparr>cf_status := s\<rparr>" ts]
    by (simp del: JSON_stringify.simps split: prod.splits)
  show ?thesis by (simp only: a b simp_thms)
qed

lemma find_id_None: "(find (\<lambda>x. a_id x = i) t = None) = (i \<notin> set (map a_id t))"
  by (auto simp: find_None_iff)

lemma find_id_distinct:
  "distinct (map a_id t) \<Longrightarrow> a \<in> set t \<Longrightarrow> find (\<lambda>x. a_id x = a_id a) t = Some a"
  by (induction t) (auto simp: rev_image_eqI)

lemma updateStatus_failure_keeps: "updateStatus e w i st = (Inl x, w1) \<Longrightarrow> w1 = w"
  by (auto simp: updateStatus_def split: sum.splits if_splits)

lemma updateAppointmentStatus_failure_keeps:
  "updateAppointmentStatus e w i st = (Inl x, w1) \<Longrightarrow> w1 = w"
  by (auto simp: updateAppointmentStatus_def split: sum.splits option.splits
           dest: updateStatus_failure_keeps)

text \<open>
  C3, as stated, fails when the read of the Primary Store itself fails: with no
  Appointment of the id in the store, the call then fails with the generic FIND_ERROR,
  not with NotFound.
\<close>

theorem C3_read_failure_counterexample:
  "''zz'' \<notin> set (map a_id (appointments empty_world))
   \<and> updateAppointmentStatus
        (env_ok\<lparr>get_fault := Some (Error ''TimeoutError'' ''socket hang up'')\<rparr>)
        empty_world ''zz'' PROCESSING
     = (Inl (AppointmentError ''Error al buscar la cita: socket hang up'' ''FIND_ERROR'' 500),
        empty_world)
   \<and> AppointmentError ''Error al buscar la cita: socket hang up'' ''FIND_ERROR'' 500
     \<noteq> NotFoundError ''Cita con ID zz no encontrada''"
  by (simp add: updateAppointmentStatus_def findById_def GetCommand_def env_ok_def
        empty_world_def)

text \<open>
  C3, amended. For every call of updateAppointmentStatus whose read of the Primary
  Store succeeds: if no Appointment has the id, the call fails with NotFound; if the
  Appointment exists (ids being unique in the store) and the transition from its status
  to the new one is outside the table, the call fails with a validation error. When the
  read fails, the call fails with the FIND_ERROR that wraps the failure. Every call that
  fails, for whatever reason, leaves the state as it was.
\<close>

theorem C3_update_guarded:
  "(get_fault e = None \<and> appointmentId \<notin> set (map a_id (appointments w))
      \<longrightarrow> updateAppointmentStatus e w appointmentId st
            = (Inl (NotFoundError (''Cita con ID '' @ appointmentId @ '' no encontrada'')), w))
   \<and> (get_fault e = None \<and> distinct (map a_id (appointments w))
        \<and> a \<in> set (appointments w) \<and> a_id a = appointmentId
        \<and> st \<notin> set (validTransitions (a_status a))
      \<longrightarrow> (\<exists>m. updateAppointmentStatus e w appointmentId st = (Inl (ValidationError m), w)))
   \<and> (get_fault e = Some x
      \<longrightarrow> updateAppointmentStatus e w appointmentId st
            = (Inl (AppointmentError (''Error al buscar la cita: '' @ error_message x)
                      ''FIND_ERROR'' 500), w))
   \<and> (\<forall>y w1. updateAppointmentStatus e w appointmentId st = (Inl y, w1) \<longrightarrow> w1 = w)"
proof (intro conjI impI allI)
  assume "get_fault e = None \<and> appointmentId \<notin> set (map a_id (appointments w))"
  then show "updateAppointmentStatus e w appointmentId st
            = (Inl (NotFoundError (''Cita con ID '' @ appointmentId @ '' no encontrada'')), w)"
    using find_id_None [of appointmentId "appointments w"]
    by (simp add: updateAppointmentStatus_def findById_def GetCommand_def)
next
  assume h: "get_fault e = None \<and> distinct (map a_id (appointments w))
        \<and> a \<in> set (appointments w) \<and> a_id a = appointmentId
        \<and> st \<notin> set (validTransitions (a_status a))"
  then have "find (\<lambda>x. a_id x = appointmentId) (appointments w) = Some a"
    using find_id_distinct [of "appointments w" a] by auto
  then show "\<exists>m. updateAppointmentStatus e w appointmentId st = (Inl (ValidationError m), w)"
    using h by (simp add: updateAppointmentStatus_def findById_def GetCommand_def
                  validateStatusTransition_def)
next
  assume "get_fault e = Some x"
  then show "updateAppointmentStatus e w appointmentId st
            = (Inl (AppointmentError (''Error al buscar la cita: '' @ error_message x)
                      ''FIND_ERROR'' 500), w)"
    by (simp add: updateAppointmentStatus_def findById_def GetCommand_def)
next
  fix y w1 assume "updateAppointmentStatus e w appointmentId st = (Inl y, w1)"
  then show "w1 = w" by (rule updateAppointmentStatus_failure_keeps)
qed

theorem C3_update_guarded_witness:
  "get_fault env_ok = None
   \<and> ''zz'' \<notin> set (map a_id (appointments (empty_world\<lparr>appointments := [example_appointment ''a1'' 100 COMPLETED]\<rparr>)))
   \<and> updateAppointmentStatus env_ok
        (empty_world\<lparr>appointments := [example_appointment ''a1'' 100 COMPLETED]\<rparr>) ''zz'' PROCESSING
      = (Inl (NotFoundError ''Cita con ID zz no encontrada''),
         empty_world\<lparr>appointments := [example_appointment ''a1'' 100 COMPLETED]\<rparr>)
   \<and> distinct (map a_id (appointments (empty_world\<lparr>appointments := [example_appointment ''a1'' 100 COMPLETED]\<rparr>)))
   \<and> example_appointment ''a1'' 100 COMPLETED
        \<in> set (appointments (empty_world\<lparr>appointments := [example_appointment ''a1'' 100 COMPLETED]\<rparr>))
   \<and> a_id (example_appointment ''a1'' 100 COMPLETED) = ''a1''
   \<and> PROCESSING \<notin> set (validTransitions (a_status (example_appointment ''a1'' 100 COMPLETED)))
   \<and> (\<exists>m. updateAppointmentStatus env_ok
              (empty_world\<lparr>appointments := [example_appointment ''a1'' 100 COMPLETED]\<rparr>) ''a1'' PROCESSING
            = (Inl (ValidationError m),
               empty_world\<lparr>appointments := [example_appointment ''a1'' 100 COMPLETED]\<rparr>))
   \<and> get_fault (env_ok\<lparr>get_fault := Some (Error ''TimeoutError'' ''socket hang up'')\<rparr>)
      = Some (Error ''TimeoutError'' ''socket hang up'')
   \<and> updateAppointmentStatus (env_ok\<lparr>get_fault := Some (Error ''TimeoutError'' ''socket hang up'')\<rparr>)
        (empty_world\<lparr>appointments := [example_appointment ''a1'' 100 COMPLETED]\<rparr>) ''a1'' PROCESSING
      = (Inl (AppointmentError ''Error al buscar la cita: socket hang up'' ''FIND_ERROR'' 500),
         empty_world\<lparr>appointments := [example_appointment ''a1'' 100 COMPLETED]\<rparr>)"
proof -
  let ?w = "empty_world\<lparr>appointments := [example_appointment ''a1'' 100 COMPLETED]\<rparr>"
  let ?a = "example_appointment ''a1'' 100 COMPLETED"
  let ?f = "env_ok\<lparr>get_fault := Some (Error ''TimeoutError'' ''socket hang up'')\<rparr>"
  have h1: "get_fault env_ok = None \<and> ''zz'' \<notin> set (map a_id (appointments ?w))"
    by (simp add: env_ok_def empty_world_def example_appointment_def)
  have h2: "get_fault env_ok = None \<and> distinct (map a_id (appointments ?w))
        \<and> ?a \<in> set (appointments ?w) \<and> a_id ?a = ''a1''
        \<and> PROCESSING \<notin> set (validTransitions (a_status ?a))"
    by (simp add: env_ok_def empty_world_def example_appointment_def)
  have h3: "get_fault ?f = Some (Error ''TimeoutError'' ''socket hang up'')"
    by simp
  have c1: "updateAppointmentStatus env_ok ?w ''zz'' PROCESSING
            = (Inl (NotFoundError (''Cita con ID '' @ ''zz'' @ '' no encontrada'')), ?w)"
    using C3_update_guarded [of env_ok "''zz''" ?w PROCESSING ?a] h1 by blast
  have c2: "\<exists>m. updateAppointmentStatus env_ok ?w ''a1'' PROCESSING = (Inl (ValidationError m), ?w)"
    using C3_update_guarded [of env_ok "''a1''" ?w PROCESSING ?a] h2 by blast
  have c3: "updateAppointmentStatus ?f ?w ''a1'' PROCESSING
            = (Inl (AppointmentError
                      (''Error al buscar la cita: '' @ error_message (Error ''TimeoutError'' ''socket hang up''))
                      ''FIND_ERROR'' 500), ?w)"
    using C3_update_guarded [of ?f "''a1''" ?w PROCESSING ?a "Error ''TimeoutError'' ''socket hang up''"] h3
    by blast
  show ?thesis using h1 h2 h3 c1 c2 c3 by simp
qed

subsection \<open>The conflict check fails open (C7)\<close>

lemma scan_fault_no_conflict:
  "scan_fault e \<noteq> None \<Longrightarrow> hasConflictingAppointment e w sid = False"
  by (auto simp: hasConflictingAppointment_def ScanCommand_def split: option.splits)

lemma no_conflict_scan:
  "\<not> (\<exists>a \<in> set (appointments w). conflicting sid a) \<Longrightarrow> hasConflictingAppointment e w sid = False"
proof -
  assume h: "\<not> (\<exists>a \<in> set (appointments w). conflicting sid a)"
  have "filter (conflicting sid) (take 1 (appointments w)) = []"
    using h by (auto simp: filter_empty_conv dest: in_set_takeD)
  then show ?thesis
    by (simp add: hasConflictingAppointment_def ScanCommand_def split: option.splits)
qed

text \<open>
  C7. When the conflict-check query fails, it is taken as "no conflict": the check
  passes; on a store without a conflicting appointment the outcome is the one of a
  working check; and the request goes on to the insert of the new PENDING Appointment
  whatever the store holds.
\<close>

theorem C7_fail_open:
  assumes "scan_fault e \<noteq> None"
  shows "hasConflictingAppointment e w scheduleId = False
   \<and> checkExistingConflicts e w scheduleId = Inr ()
   \<and> ((\<forall>r. validationService svc req = Some (Inr r)
             \<longrightarrow> \<not> (\<exists>a \<in> set (appointments w). conflicting (rq_scheduleId r) a))
        \<longrightarrow> createAppointment svc e w req = createAppointment svc (e\<lparr>scan_fault := None\<rparr>) w req)
   \<and> (validationService svc req = Some (Inr r)
        \<and> checkScheduleAvailability svc (rq_scheduleId r) = Inr ()
        \<and> put_fault e = None \<and> sns_fault e = None
        \<and> uuids e (uuid_count w) \<notin> set (map a_id (appointments w))
      \<longrightarrow> (\<exists>w1. createAppointment svc e w req
                   = Some (buildSuccessResponse
                            \<lparr> a_id = uuids e (uuid_count w), a_insuredId = rq_insuredId r,
                              a_scheduleId = rq_scheduleId r, a_countryISO = rq_countryISO r,
                              a_status = PENDING, a_createdAt = now e, a_updatedAt = now e \<rparr>, w1)
                 \<and> appointments w1 = appointments w @
                      [\<lparr> a_id = uuids e (uuid_count w), a_insuredId = rq_insuredId r,
                         a_scheduleId = rq_scheduleId r, a_countryISO = rq_countryISO r,
                         a_status = PENDING, a_createdAt = now e, a_updatedAt = now e \<rparr>]))"
proof (intro conjI impI)
  show nc: "hasConflictingAppointment e w scheduleId = False"
    using assms by (rule scan_fault_no_conflict)
  show "checkExistingConflicts e w scheduleId = Inr ()"
    using nc by (simp add: checkExistingConflicts_def)
next
  assume h: "\<forall>r. validationService svc req = Some (Inr r)
             \<longrightarrow> \<not> (\<exists>a \<in> set (appointments w). conflicting (rq_scheduleId r) a)"
  show "createAppointment svc e w req = createAppointment svc (e\<lparr>scan_fault := None\<rparr>) w req"
  proof (cases "validationService svc req")
    case None
    then show ?thesis by (simp add: createAppointment_def)
  next
    case (Some v)
    show ?thesis
    proof (cases v)
      case (Inl x)
      then show ?thesis using Some by (simp add: createAppointment_def)
    next
      case (Inr r)
      have a: "hasConflictingAppointment e w (rq_scheduleId r) = False"
        using assms by (rule scan_fault_no_conflict)
      have b: "hasConflictingAppointment (e\<lparr>scan_fault := None\<rparr>) w (rq_scheduleId r) = False"
        using h Some Inr by (intro no_conflict_scan) simp
      have c1: "checkExistingConflicts (e\<lparr>scan_fault := None\<rparr>) w (rq_scheduleId r)
                  = checkExistingConflicts e w (rq_scheduleId r)"
        using a b by (simp add: checkExistingConflicts_def)
      have c2: "createAppointmentRecord (e\<lparr>scan_fault := None\<rparr>) w r = createAppointmentRecord e w r"
        by (simp add: createAppointmentRecord_def AppointmentRepository_create_def
              PutCommand_def uuidv4_def)
      have c3: "publishCreatedEvent (e\<lparr>scan_fault := None\<rparr>) w1 ap = publishCreatedEvent e w1 ap"
        for w1 ap
        by (simp add: publishCreatedEvent_def publishAppointmentCreated_def)
      show ?thesis
        using Some Inr by (simp add: createAppointment_def c1 c2 c3 split: sum.splits prod.splits)
    qed
  qed
next
  assume h: "validationService svc req = Some (Inr r)
        \<and> checkScheduleAvailability svc (rq_scheduleId r) = Inr ()
        \<and> put_fault e = None \<and> sns_fault e = None
        \<and> uuids e (uuid_count w) \<notin> set (map a_id (appointments w))"
  have a: "hasConflictingAppointment e w (rq_scheduleId r) = False"
    using assms by (rule scan_fault_no_conflict)
  show "\<exists>w1. createAppointment svc e w req
                   = Some (buildSuccessResponse
                            \<lparr> a_id = uuids e (uuid_count w), a_insuredId = rq_insuredId r,
                              a_scheduleId = rq_scheduleId r, a_countryISO = rq_countryISO r,
                              a_status = PENDING, a_createdAt = now e, a_updatedAt = now e \<rparr>, w1)
                 \<and> appointments w1 = appointments w @
                      [\<lparr> a_id = uuids e (uuid_count w), a_insuredId = rq_insuredId r,
                         a_scheduleId = rq_scheduleId r, a_countryISO = rq_countryISO r,
                         a_status = PENDING, a_createdAt = now e, a_updatedAt = now e \<rparr>]"
    using h a
    by (simp add: createAppointment_def checkExistingConflicts_def createAppointmentRecord_def
          AppointmentRepository_create_def PutCommand_def uuidv4_def publishCreatedEvent_def
          publishAppointmentCreated_def Let_def)
qed

theorem C7_fail_open_witness:
  "scan_fault (env_ok\<lparr>scan_fault := Some (Error ''NetworkingError'' ''connect ETIMEDOUT'')\<rparr>) \<noteq> None
   \<and> hasConflictingAppointment (env_ok\<lparr>scan_fault := Some (Error ''NetworkingError'' ''connect ETIMEDOUT'')\<rparr>)
        (empty_world\<lparr>appointments := [example_appointment ''a1'' 100 PENDING]\<rparr>) 100 = False
   \<and> validationService deployed_service example_request
        = Some (Inr \<lparr> rq_insuredId = ''00123'', rq_scheduleId = 100, rq_countryISO = PE \<rparr>)
   \<and> createAppointment deployed_service
        (env_ok\<lparr>scan_fault := Some (Error ''NetworkingError'' ''connect ETIMEDOUT'')\<rparr>)
        empty_world example_request
      = createAppointment deployed_service env_ok empty_world example_request
   \<and> (\<exists>w1. createAppointment deployed_service
               (env_ok\<lparr>scan_fault := Some (Error ''NetworkingError'' ''connect ETIMEDOUT'')\<rparr>)
               (empty_world\<lparr>appointments := [example_appointment ''a1'' 100 PENDING]\<rparr>)
               example_request
             = Some (buildSuccessResponse
                       \<lparr> a_id = ''uuid-0'', a_insuredId = ''00123'', a_scheduleId = 100,
                         a_countryISO = PE, a_status = PENDING,
                         a_createdAt = ''2024-03-15T10:30:00.000Z'',
                         a_updatedAt = ''2024-03-15T10:30:00.000Z'' \<rparr>, w1)
           \<and> map (\<lambda>a. (a_id a, a_scheduleId a, a_status a)) (appointments w1)
             = [(''a1'', 100, PENDING), (''uuid-0'', 100, PENDING)])"
proof -
  let ?e = "env_ok\<lparr>scan_fault := Some (Error ''NetworkingError'' ''connect ETIMEDOUT'')\<rparr>"
  let ?w = "empty_world\<lparr>appointments := [example_appointment ''a1'' 100 PENDING]\<rparr>"
  let ?r = "\<lparr> rq_insuredId = ''00123'', rq_scheduleId = 100, rq_countryISO = PE \<rparr>"
  have f: "scan_fault ?e \<noteq> None" by simp
  have v: "validationService deployed_service example_request = Some (Inr ?r)"
    by code_simp
  have e0: "?e\<lparr>scan_fault := None\<rparr> = env_ok" by (simp add: env_ok_def)
  have none: "\<forall>r. validationService deployed_service example_request = Some (Inr r)
             \<longrightarrow> \<not> (\<exists>a \<in> set (appointments empty_world). conflicting (rq_scheduleId r) a)"
    by (simp add: empty_world_def)
  have h: "validationService deployed_service example_request = Some (Inr ?r)
        \<and> checkScheduleAvailability deployed_service (rq_scheduleId ?r) = Inr ()
        \<and> put_fault ?e = None \<and> sns_fault ?e = None
        \<and> uuids ?e (uuid_count ?w) \<notin> set (map a_id (appointments ?w))"
  proof (intro conjI)
    show "validationService deployed_service example_request = Some (Inr ?r)" by (rule v)
    show "checkScheduleAvailability deployed_service (rq_scheduleId ?r) = Inr ()"
      by (simp add: checkScheduleAvailability_def deployed_service_def)
    show "put_fault ?e = None" "sns_fault ?e = None" by (simp_all add: env_ok_def)
    show "uuids ?e (uuid_count ?w) \<notin> set (map a_id (appointments ?w))"
      by code_simp
  qed
  note a = C7_fail_open [OF f, of ?w 100 deployed_service example_request ?r]
  note b = C7_fail_open [OF f, of empty_world 100 deployed_service example_request ?r]
  have c1: "hasConflictingAppointment ?e ?w 100 = False" using a by blast
  have c2: "createAppointment deployed_service ?e empty_world example_request
              = createAppointment deployed_service env_ok empty_world example_request"
    using b none e0 by simp
  have c3: "\<exists>w1. createAppointment deployed_service ?e ?w example_request
                   = Some (buildSuccessResponse
                            \<lparr> a_id = uuids ?e (uuid_count ?w), a_insuredId = rq_insuredId ?r,
                              a_scheduleId = rq_scheduleId ?r, a_countryISO = rq_countryISO ?r,
                              a_status = PENDING, a_createdAt = now ?e, a_updatedAt = now ?e \<rparr>, w1)
                 \<and> appointments w1 = appointments ?w @
                      [\<lparr> a_id = uuids ?e (uuid_count ?w), a_insuredId = rq_insuredId ?r,
                         a_scheduleId = rq_scheduleId ?r, a_countryISO = rq_countryISO ?r,
                         a_status = PENDING, a_createdAt = now ?e, a_updatedAt = now ?e \<rparr>]"
    using a h by blast
  have u: "uuids ?e (uuid_count ?w) = ''uuid-0''" by code_simp
  have n: "now ?e = ''2024-03-15T10:30:00.000Z''" by (simp add: env_ok_def)
  have aw: "appointments ?w = [example_appointment ''a1'' 100 PENDING]" by simp
  from c3 obtain w1 where w1: "createAppointment deployed_service ?e ?w example_request
                   = Some (buildSuccessResponse
                       \<lparr> a_id = ''uuid-0'', a_insuredId = ''00123'', a_scheduleId = 100,
                         a_countryISO = PE, a_status = PENDING,
                         a_createdAt = ''2024-03-15T10:30:00.000Z'',
                         a_updatedAt = ''2024-03-15T10:30:00.000Z'' \<rparr>, w1)"
     "appointments w1 = [example_appointment ''a1'' 100 PENDING,
                         \<lparr> a_id = ''uuid-0'', a_insuredId = ''00123'', a_scheduleId = 100,
                         a_countryISO = PE, a_status = PENDING,
                         a_createdAt = ''2024-03-15T10:30:00.000Z'',
                         a_updatedAt = ''2024-03-15T10:30:00.000Z'' \<rparr>]"
    unfolding u n aw by auto
  have c4: "\<exists>w1. createAppointment deployed_service ?e ?w example_request
             = Some (buildSuccessResponse
                       \<lparr> a_id = ''uuid-0'', a_insuredId = ''00123'', a_scheduleId = 100,
                         a_countryISO = PE, a_status = PENDING,
                         a_createdAt = ''2024-03-15T10:30:00.000Z'',
                         a_updatedAt = ''2024-03-15T10:30:00.000Z'' \<rparr>, w1)
           \<and> map (\<lambda>a. (a_id a, a_scheduleId a, a_status a)) (appointments w1)
             = [(''a1'', 100, PENDING), (''uuid-0'', 100, PENDING)]"
    using w1 by (intro exI [of _ w1]) (simp add: example_appointment_def)
  show ?thesis using f c1 v c2 c4 by blast
qed

subsection \<open>The Country Processor (C6)\<close>

lemma notifyError_confirmed: "confirmed_entries (notifyError e w x ctx) = confirmed_entries w"
  by (simp add: notifyError_def confirmed_entries_def Let_def split: option.splits sum.splits)

lemma notifyError_regional: "regional c (notifyError e w x ctx) = regional c w"
  by (cases c) (simp_all add: notifyError_def regional_def Let_def split: option.splits sum.splits)

lemma regional_set_regional [simp]: "regional c (set_regional c s w) = s"
  by (cases c) (simp_all add: regional_def set_regional_def)

lemma bus_set_regional [simp]: "bus (set_regional c s w) = bus w"
  by (cases c) (simp_all add: set_regional_def)

lemma getConnection_rows:
  "getConnection e c w = (r, w1) \<Longrightarrow> rows (regional c w1) = rows (regional c w) \<and> bus w1 = bus w"
  by (auto simp: getConnection_def split: if_splits sum.splits)

lemma create_outcome:
  assumes "AppointmentRDSRepository_create e c w i s info st = (res, w1)"
  shows "bus w1 = bus w
     \<and> (case res of
           Inl x \<Rightarrow> rows (regional c w1) = rows (regional c w)
         | Inr row \<Rightarrow> rows (regional c w1) = rows (regional c w) @ [row] \<and> r_status row = st
                       \<and> schedule_id row = s \<and> insured_id row = i)"
proof (cases "getConnection e c w")
  case (Pair r wc)
  note gc = getConnection_rows [OF Pair]
  show ?thesis
  proof (cases r)
    case (Inl x)
    then show ?thesis using assms Pair gc
      by (auto simp: AppointmentRDSRepository_create_def)
  next
    case (Inr u)
    have rg: "regional c (wc\<lparr>uuid_count := n\<rparr>) = regional c wc" for n
      by (cases c) (simp_all add: regional_def)
    show ?thesis using assms Pair Inr gc
      by (auto simp: AppointmentRDSRepository_create_def uuidv4_def execute_insert_def rg Let_def
               split: sum.splits option.splits if_splits prod.splits)
  qed
qed

lemma publish_outcome:
  assumes "publishAppointmentConfirmed e w cev = (res, w1)"
  shows "regional c w1 = regional c w
     \<and> (case res of
           Inl x \<Rightarrow> bus w1 = bus w
         | Inr u \<Rightarrow> bus w1 = bus w @
              [\<lparr> Source = ''appointment.service'', DetailType = ''Appointment Confirmed'',
                 Detail = JSON_stringify (confirmed_detail_json cev (now e)),
                 Resources = [''appointment:'' @ cf_appointmentId cev] \<rparr>])"
  using assms
  by (cases c)
     (auto simp: publishAppointmentConfirmed_def regional_def Let_def
           simp del: JSON_stringify.simps split: sum.splits option.splits if_splits)

lemma steps_cases:
  assumes "processAppointment_steps e c w ev = (res, w1)"
  shows "(\<exists>x. res = Inl x \<and> w1 = w \<and> validateEvent c ev = Inl x)
       \<or> (\<exists>x. res = Inl x
              \<and> createRDSRecord e c w ev (getScheduleInformation (now e) (ce_scheduleId ev))
                  = (Inl x, w1))
       \<or> (\<exists>row wr. createRDSRecord e c w ev (getScheduleInformation (now e) (ce_scheduleId ev))
                       = (Inr row, wr)
              \<and> publishConfirmation e c wr ev row = (res, w1))"
proof (cases "validateEvent c ev")
  case (Inl x)
  then have "res = Inl x \<and> w1 = w"
    using assms by (simp add: processAppointment_steps_def)
  then show ?thesis using Inl by simp
next
  case (Inr u)
  let ?info = "getScheduleInformation (now e) (ce_scheduleId ev)"
  obtain r wr where cr: "createRDSRecord e c w ev ?info = (r, wr)"
    by (cases "createRDSRecord e c w ev ?info")
  show ?thesis
  proof (cases r)
    case (Inl x)
    then have "res = Inl x \<and> w1 = wr"
      using assms Inr cr
      by (simp add: processAppointment_steps_def executeCountrySpecificLogic_def Let_def)
    then show ?thesis using cr Inl by simp
  next
    case (Inr row)
    then have "publishConfirmation e c wr ev row = (res, w1)"
      using assms \<open>validateEvent c ev = Inr u\<close> cr
      by (simp add: processAppointment_steps_def executeCountrySpecificLogic_def Let_def)
    then show ?thesis using cr Inr by simp
  qed
qed

text \<open>
  C6. In every run of a Country Processor, a RegionalRecord that is inserted has status
  PROCESSING; a ConfirmedEvent (with status COMPLETED) is published only in a run that
  has inserted the record and ends without error; and when the insert fails, no
  ConfirmedEvent is published, no record is added and the run fails.
\<close>

theorem C6_insert_before_confirmation:
  assumes "processAppointment e country w ev = (res, w1)"
  shows "(rows (regional country w1) = rows (regional country w)
          \<or> (\<exists>row. rows (regional country w1) = rows (regional country w) @ [row]
                \<and> r_status row = AppointmentStatus_str PROCESSING))
       \<and> (confirmed_entries w1 = confirmed_entries w
          \<or> (confirmed_entries w1 = confirmed_entries w @ [confirmation_of e country ev]
              \<and> res = Inr ()
              \<and> (\<exists>row. rows (regional country w1) = rows (regional country w) @ [row]
                    \<and> r_status row = AppointmentStatus_str PROCESSING)))
       \<and> ((\<exists>x wr. createRDSRecord e country w ev
                     (getScheduleInformation (now e) (ce_scheduleId ev)) = (Inl x, wr))
            \<longrightarrow> (\<exists>y. res = Inl y) \<and> confirmed_entries w1 = confirmed_entries w
                \<and> rows (regional country w1) = rows (regional country w))"
proof -
  let ?info = "getScheduleInformation (now e) (ce_scheduleId ev)"
  let ?ctx = "[(''appointmentId'', JStr (ce_appointmentId ev)),
               (''country'', JStr (CountryISO_str country)),
               (''scheduleId'', JNum (ce_scheduleId ev))]"
  obtain r ws where st: "processAppointment_steps e country w ev = (r, ws)"
    by (cases "processAppointment_steps e country w ev")
  have out: "res = r" "w1 = (case r of Inr u \<Rightarrow> ws | Inl x \<Rightarrow> notifyError e ws x ?ctx)"
    using assms st by (auto simp: processAppointment_def split: sum.splits)
  have keep: "r = Inl x \<Longrightarrow> confirmed_entries w1 = confirmed_entries ws
                 \<and> regional country w1 = regional country ws" for x
    using out by (simp add: notifyError_confirmed notifyError_regional)
  from steps_cases [OF st] consider
      (invalid) x where "r = Inl x" "ws = w"
    | (noinsert) x where "r = Inl x" "createRDSRecord e country w ev ?info = (Inl x, ws)"
    | (inserted) row wr where "createRDSRecord e country w ev ?info = (Inr row, wr)"
        "publishConfirmation e country wr ev row = (r, ws)"
    by blast
  then show ?thesis
  proof cases
    case invalid
    then show ?thesis using keep [OF invalid(1)] out by auto
  next
    case noinsert
    have "bus ws = bus w \<and> rows (regional country ws) = rows (regional country w)"
      using create_outcome [OF noinsert(2) [unfolded createRDSRecord_def]] by simp
    then show ?thesis using keep [OF noinsert(1)] out noinsert
      by (auto simp: confirmed_entries_def)
  next
    case inserted
    have co: "bus wr = bus w" "rows (regional country wr) = rows (regional country w) @ [row]"
        "r_status row = AppointmentStatus_str PROCESSING"
      using create_outcome [OF inserted(1) [unfolded createRDSRecord_def]] by simp_all
    note po = publish_outcome [OF inserted(2) [unfolded publishConfirmation_def], of country]
    show ?thesis
    proof (cases r)
      case (Inl x)
      then have "bus ws = bus wr" "regional country ws = regional country wr"
        using po by simp_all
      then show ?thesis using keep [OF Inl] out Inl co inserted(1)
        by (auto simp: confirmed_entries_def)
    next
      case (Inr u)
      then have "bus ws = bus wr @ [confirmation_of e country ev]"
          "regional country ws = regional country wr"
        using po by (simp_all add: confirmation_of_def del: JSON_stringify.simps)
      then show ?thesis using out Inr co inserted(1)
        by (auto simp: confirmed_entries_def confirmation_of_def simp del: JSON_stringify.simps)
    qed
  qed
qed

theorem C6_insert_before_confirmation_witness:
  "confirmed_entries (snd (processAppointment env_ok PE empty_world example_event))
     = confirmed_entries empty_world @ [confirmation_of env_ok PE example_event]
   \<and> fst (processAppointment env_ok PE empty_world example_event) = Inr ()
   \<and> (\<exists>row. rows (regional PE (snd (processAppointment env_ok PE empty_world example_event)))
               = rows (regional PE empty_world) @ [row]
             \<and> r_status row = AppointmentStatus_str PROCESSING)
   \<and> (\<exists>x wr. createRDSRecord (env_ok\<lparr>insert_fault := Some (''ER_LOCK_DEADLOCK'', ''Deadlock found'')\<rparr>)
                PE empty_world example_event
                (getScheduleInformation
                   (now (env_ok\<lparr>insert_fault := Some (''ER_LOCK_DEADLOCK'', ''Deadlock found'')\<rparr>))
                   (ce_scheduleId example_event)) = (Inl x, wr))
   \<and> (\<exists>y. fst (processAppointment (env_ok\<lparr>insert_fault := Some (''ER_LOCK_DEADLOCK'', ''Deadlock found'')\<rparr>)
                  PE empty_world example_event) = Inl y)
   \<and> confirmed_entries
        (snd (processAppointment (env_ok\<lparr>insert_fault := Some (''ER_LOCK_DEADLOCK'', ''Deadlock found'')\<rparr>)
                PE empty_world example_event))
      = confirmed_entries empty_world
   \<and> rows (regional PE
        (snd (processAppointment (env_ok\<lparr>insert_fault := Some (''ER_LOCK_DEADLOCK'', ''Deadlock found'')\<rparr>)
                PE empty_world example_event)))
      = rows (regional PE empty_world)"
proof -
  let ?p = "processAppointment env_ok PE empty_world example_event"
  let ?f = "env_ok\<lparr>insert_fault := Some (''ER_LOCK_DEADLOCK'', ''Deadlock found'')\<rparr>"
  let ?q = "processAppointment ?f PE empty_world example_event"
  let ?c = "createRDSRecord ?f PE empty_world example_event
              (getScheduleInformation (now ?f) (ce_scheduleId example_event))"
  have hp: "?p = (fst ?p, snd ?p)" by simp
  have hq: "?q = (fst ?q, snd ?q)" by simp
  note a = C6_insert_before_confirmation [OF hp]
  note b = C6_insert_before_confirmation [OF hq]
  have grew: "length (confirmed_entries (snd ?p)) = 1 \<and> length (confirmed_entries empty_world) = 0"
    by code_simp
  then have ne: "confirmed_entries (snd ?p) \<noteq> confirmed_entries empty_world"
    by auto
  have ok: "confirmed_entries (snd ?p)
              = confirmed_entries empty_world @ [confirmation_of env_ok PE example_event]
            \<and> fst ?p = Inr ()
            \<and> (\<exists>row. rows (regional PE (snd ?p)) = rows (regional PE empty_world) @ [row]
                  \<and> r_status row = AppointmentStatus_str PROCESSING)"
    using a ne by blast
  have "isl (fst ?c)" by code_simp
  then have fails: "\<exists>x wr. ?c = (Inl x, wr)"
    by (cases ?c; cases "fst ?c") auto
  have ko: "(\<exists>y. fst ?q = Inl y) \<and> confirmed_entries (snd ?q) = confirmed_entries empty_world
            \<and> rows (regional PE (snd ?q)) = rows (regional PE empty_world)"
    using b fails by blast
  show ?thesis using ok fails ko by blast
qed

subsection \<open>The conflict check reads one item (C4)\<close>

text \<open>
  When the check reports a conflict, the request is answered with the Conflict response
  and nothing is inserted. The check reports it when the conflicting Appointment is the
  item the Scan reads.
\<close>

lemma conflict_detected_no_insert:
  assumes "validationService svc req = Some (Inr r)"
    "checkScheduleAvailability svc (rq_scheduleId r) = Inr ()"
    "hasConflictingAppointment e w (rq_scheduleId r)"
  shows "createAppointment svc e w req
           = Some (handleError (ConflictError (''Ya existe una cita para el horario ''
                                                @ show_int (rq_scheduleId r))), w)"
  using assms by (simp add: createAppointment_def checkExistingConflicts_def)

lemma conflict_on_first_item:
  assumes "validationService svc req = Some (Inr r)"
    "checkScheduleAvailability svc (rq_scheduleId r) = Inr ()"
    "scan_fault e = None" "appointments w = a # rest" "conflicting (rq_scheduleId r) a"
  shows "createAppointment svc e w req
           = Some (handleError (ConflictError (''Ya existe una cita para el horario ''
                                                @ show_int (rq_scheduleId r))), w)"
  using assms
  by (simp add: createAppointment_def checkExistingConflicts_def hasConflictingAppointment_def
        ScanCommand_def)

text \<open>
  C4. With a conflicting Appointment behind another item of the table, the check reads
  only the first item and finds nothing. On a store that holds a PENDING Appointment of
  schedule 200 and a PENDING Appointment of schedule 100, read by the Scan in this
  order, the request of schedule 100 is answered with success and a second PENDING
  Appointment of schedule 100 is inserted; read in the other order, the same happens to
  the request of schedule 200.
\<close>

theorem C4_conflict_behind_first_item:
  "map_option (\<lambda>(response, w). (success response, data response,
                                 map (\<lambda>a. (a_id a, a_scheduleId a, a_status a)) (appointments w)))
     (createAppointment deployed_service env_ok
        (empty_world\<lparr>appointments := [example_appointment ''a1'' 200 PENDING,
                                       example_appointment ''a2'' 100 PENDING]\<rparr>)
        example_request)
   = Some (True, Some (''uuid-0'', PENDING),
           [(''a1'', 200, PENDING), (''a2'', 100, PENDING), (''uuid-0'', 100, PENDING)])
   \<and> map_option (\<lambda>(response, w). (success response, data response,
                                 map (\<lambda>a. (a_id a, a_scheduleId a, a_status a)) (appointments w)))
     (createAppointment deployed_service env_ok
        (empty_world\<lparr>appointments := [example_appointment ''a2'' 100 PENDING,
                                       example_appointment ''a1'' 200 PENDING]\<rparr>)
        (JObj [(''insuredId'', JStr ''00123''), (''scheduleId'', JNum 200),
               (''countryISO'', JStr ''PE'')]))
   = Some (True, Some (''uuid-0'', PENDING),
           [(''a2'', 100, PENDING), (''a1'', 200, PENDING), (''uuid-0'', 200, PENDING)])"
  by code_simp

subsection \<open>The status codes of the create endpoint (C5)\<close>

text \<open>
  Whatever the outcome, the create endpoint answers 201 or 400: 201 for the example
  request on the empty store, 400 for a request whose insuredId has three digits.
\<close>

lemma createResponse_status [simp]: "statusCode (createResponse c b) = c"
  by (simp add: createResponse_def)

lemma createErrorResponse_conflict: "statusCode (createErrorResponse (ConflictError m)) = 409"
  by (simp add: createErrorResponse_def)

lemma handleCreateAppointment_codes:
  assumes "handleCreateAppointment service e w event_body = Some (result, w1)"
  shows "statusCode result = 201 \<or> statusCode result = 400"
  using assms
  by (auto simp: handleCreateAppointment_def split: if_splits sum.splits option.splits prod.splits)

lemma create_endpoint_201_and_400:
  "map_option (\<lambda>(result, w). (statusCode result, map a_status (appointments w)))
     (handleCreateAppointment deployed_service env_ok empty_world
        (Some (JSON_stringify example_request)))
   = Some (201, [PENDING])
   \<and> map_option (\<lambda>(result, w). (statusCode result, map a_status (appointments w)))
     (handleCreateAppointment deployed_service env_ok empty_world
        (Some (JSON_stringify (JObj [(''insuredId'', JStr ''123''), (''scheduleId'', JNum 100),
                                     (''countryISO'', JStr ''PE'')]))))
   = Some (400, [])"
  by code_simp

text \<open>
  C5. The create endpoint answers a duplicate-schedule conflict with 400 and the body
  of the Conflict response, and a failure of the store with 400 and the body of the
  processing error; in both cases nothing is inserted.
\<close>

theorem C5_failures_answer_400:
  "map_option (\<lambda>(result, w). (statusCode result, length (appointments w)))
     (handleCreateAppointment deployed_service env_ok
        (empty_world\<lparr>appointments := [example_appointment ''a2'' 100 PENDING]\<rparr>)
        (Some (JSON_stringify example_request)))
   = Some (400, 1)
   \<and> map_option (\<lambda>(result, w). result_body result)
     (handleCreateAppointment deployed_service env_ok
        (empty_world\<lparr>appointments := [example_appointment ''a2'' 100 PENDING]\<rparr>)
        (Some (JSON_stringify example_request)))
   = Some (JSON_stringify (JObj [(''success'', JBool False),
                                 (''message'', JStr ''Conflicto en la solicitud''),
                                 (''error'', JStr ''Ya existe una cita para el horario 100'')]))
   \<and> map_option (\<lambda>(result, w). (statusCode result, length (appointments w)))
     (handleCreateAppointment deployed_service
        (env_ok\<lparr>put_fault := Some (Error ''ProvisionedThroughputExceededException'' ''throttled'')\<rparr>)
        empty_world (Some (JSON_stringify example_request)))
   = Some (400, 0)
   \<and> map_option (\<lambda>(result, w). result_body result)
     (handleCreateAppointment deployed_service
        (env_ok\<lparr>put_fault := Some (Error ''ProvisionedThroughputExceededException'' ''throttled'')\<rparr>)
        empty_world (Some (JSON_stringify example_request)))
   = Some (JSON_stringify (JObj [(''success'', JBool False),
                                 (''message'', JStr ''Error en el procesamiento''),
                                 (''error'', JStr ''Error al crear la cita: throttled'')]))"
  by code_simp

subsection \<open>The end-to-end example (C1)\<close>

text \<open>The Reconciler cannot complete an Appointment that is still PENDING.\<close>

lemma pending_never_completed:
  assumes "get_fault e = None" "find (\<lambda>x. a_id x = i) (appointments w) = Some a"
    "a_status a = PENDING"
  shows "\<exists>m. updateAppointmentStatus e w i COMPLETED = (Inl (ValidationError m), w)"
  using assms
  by (simp add: updateAppointmentStatus_def findById_def GetCommand_def validateStatusTransition_def)

text \<open>
  C1. On the request with insuredId 00123, scheduleId 100 and country PE, one run of
  the pipeline without faults (the Intake call, the PE Lambda on the message of the
  country queue, the Reconciler on the message of the confirmation queue) creates the
  Appointment, inserts one RegionalRecord of schedule 100 and publishes the
  confirmation; the Reconciler's update is then rejected by the state machine, and the
  Primary Store holds the one Appointment with status PENDING.
\<close>

theorem C1_pipeline_stays_pending:
  "map_option (\<lambda>(response, processed, reconciled, w).
                 (success response, data response, processed, reconciled,
                  map a_status (appointments w),
                  map schedule_id (rows (regional_pe w))))
     (pipeline deployed_service env_ok PE empty_world example_request)
   = Some (True, Some (''uuid-0'', PENDING), Inr (),
           Inl (ValidationError (''Transici'' @ [CHR 0xF3] @ ''n de estado inv'' @ [CHR 0xE1]
                                 @ ''lida: pending -> completed'')),
           [PENDING], [100])"
  by code_simp

end
